theory Spec2Isabelle
  imports Complex_Main "HOL-Library.Sublist"
begin

section \<open>Python values\<close>

text \<open>
  A Python \<open>float\<close> is a finite value, an infinity or a NaN; comparisons with a NaN are
  false. A dictionary loaded from JSON or built by a dict display is an association
  list in insertion order, read with \<open>d.get(k, default)\<close>. Exceptions are values of
  \<open>exn\<close>; a call that may raise returns \<open>exn + 'a\<close>.
\<close>

datatype pyfloat = Finite real | PosInf | NegInf | NaN

datatype pyval = PNone | PBool bool | PNum pyfloat | PStr string

type_synonym pydict = "(string \<times> pyval) list"

datatype exn = RequestException | ValueError | KeyError | TypeError | AttributeError
  | ZeroDivisionError | AddressValueError

definition dict_get :: "pydict \<Rightarrow> string \<Rightarrow> pyval \<Rightarrow> pyval" where
  "dict_get d k dflt = (case map_of d k of None \<Rightarrow> dflt | Some v \<Rightarrow> v)"

fun float_le :: "pyfloat \<Rightarrow> pyfloat \<Rightarrow> bool" where
  "float_le NaN _ = False"
| "float_le _ NaN = False"
| "float_le NegInf _ = True"
| "float_le _ PosInf = True"
| "float_le (Finite x) (Finite y) = (x \<le> y)"
| "float_le (Finite x) NegInf = False"
| "float_le PosInf (Finite y) = False"
| "float_le PosInf NegInf = False"

section \<open>Strings as the Python code uses them\<close>

text \<open>
  URLs and page fields are modelled as \<open>string\<close> (lists of 8-bit characters). The
  operations below are the ones the two scripts apply to \<open>str\<close> values:
  \<open>sub in s\<close>, \<open>s.lower()\<close>, \<open>s.replace(old, new)\<close> and \<open>str(n)\<close> for a
  non-negative integer. \<open>lower\<close> maps the ASCII capitals and leaves every other
  character alone: it is \<open>str.lower()\<close> on ASCII strings, which URLs are. Python's
  \<open>str.lower()\<close> also maps capitals outside ASCII, which an 8-bit character does not
  represent; no property below depends on what \<open>lower\<close> does to a character.
\<close>

definition lower_char :: "char \<Rightarrow> char" where
  "lower_char c =
     (case map_of (zip ''ABCDEFGHIJKLMNOPQRSTUVWXYZ'' ''abcdefghijklmnopqrstuvwxyz'') c of
        None \<Rightarrow> c
      | Some d \<Rightarrow> d)"

definition lower :: "string \<Rightarrow> string" where
  "lower s = map lower_char s"

fun str_in :: "string \<Rightarrow> string \<Rightarrow> bool" where
  "str_in sub [] = (sub = [])"
| "str_in sub (c # cs) = (prefix sub (c # cs) \<or> str_in sub cs)"

section \<open>smart\_camera\_expander.py: detect\_manufacturer\<close>

definition detect_manufacturer :: "string \<Rightarrow> string" where
  "detect_manufacturer url =
     (let url_lower = lower url in
      if str_in ''axis'' url_lower \<or> str_in ''mjpg/video'' url_lower then ''Axis''
      else if str_in ''snapshotjpeg'' url_lower \<or> str_in ''cgi-bin/camera'' url_lower
        then ''Panasonic''
      else if str_in ''getoneshot'' url_lower then ''Canon''
      else if str_in ''oneshotimage'' url_lower then ''Sony''
      else if str_in ''cam_'' url_lower \<and> str_in ''.cgi'' url_lower then ''WebcamXP''
      else if str_in ''tmpfs/auto.jpg'' url_lower then ''FDT''
      else ''Unknown'')"

text \<open>
  The specification's reading of the same function: an ordered table of
  (predicate, result) pairs, evaluated in priority order on the lower-cased URL, with a
  default when no predicate holds.
\<close>

definition signature_table :: "((string \<Rightarrow> bool) \<times> string) list" where
  "signature_table =
     [(\<lambda>u. str_in ''axis'' u \<or> str_in ''mjpg/video'' u, ''Axis''),
      (\<lambda>u. str_in ''snapshotjpeg'' u \<or> str_in ''cgi-bin/camera'' u, ''Panasonic''),
      (\<lambda>u. str_in ''getoneshot'' u, ''Canon''),
      (\<lambda>u. str_in ''oneshotimage'' u, ''Sony''),
      (\<lambda>u. str_in ''cam_'' u \<and> str_in ''.cgi'' u, ''WebcamXP''),
      (\<lambda>u. str_in ''tmpfs/auto.jpg'' u, ''FDT'')]"

fun first_match :: "(('a \<Rightarrow> bool) \<times> 'b) list \<Rightarrow> 'a \<Rightarrow> 'b \<Rightarrow> 'b" where
  "first_match [] x d = d"
| "first_match ((p, r) # rest) x d = (if p x then r else first_match rest x d)"

definition manufacturers :: "string set" where
  "manufacturers =
     {''Axis'', ''Panasonic'', ''Canon'', ''Sony'', ''WebcamXP'', ''FDT'', ''Unknown''}"

section \<open>main.py: extract\_camera\_details\<close>

text \<open>
  The detail page as BeautifulSoup presents it to the function. \<open>details_div\<close> is
  \<open>None\<close> when the page has no \<open>div.camera-details\<close>; otherwise it gives, for a
  label, the stripped text of the element that follows it (\<open>None\<close> when the label or
  that element is missing). The image tag may be missing, or present without a
  \<open>src\<close> attribute, in which case \<open>image_tag['src']\<close> raises \<open>KeyError\<close>.
\<close>

datatype image_tag = NoImage | ImageNoSrc | ImageSrc string

record detail_page =
  details_div :: "(string \<Rightarrow> string option) option"
  image_tag :: image_tag

definition get_detail :: "(string \<Rightarrow> string option) \<Rightarrow> string \<Rightarrow> string" where
  "get_detail details text = (case details text of None \<Rightarrow> ''N/A'' | Some v \<Rightarrow> v)"

record raw_fields =
  raw_lat :: string
  raw_lon :: string
  raw_country :: string
  raw_city :: string
  raw_region :: string
  raw_manufacturer :: string
  raw_image_url :: string
  raw_page_url :: string

definition camera_record :: "pyfloat \<Rightarrow> pyfloat \<Rightarrow> raw_fields \<Rightarrow> pydict" where
  "camera_record lat_float lon_float f =
     [(''latitude'', PNum lat_float),
      (''longitude'', PNum lon_float),
      (''country'', PStr (raw_country f)),
      (''city'', PStr (raw_city f)),
      (''region'', PStr (raw_region f)),
      (''manufacturer'', PStr (raw_manufacturer f)),
      (''image_url'', PStr (raw_image_url f)),
      (''page_url'', PStr (raw_page_url f))]"

text \<open>
  Lines 85 to 105: the validation of the extracted fields. \<open>float_of_str\<close> is the
  builtin \<open>float\<close> on a \<open>str\<close>: \<open>None\<close> stands for the \<open>ValueError\<close> it raises
  on a string that is no float literal, which the function catches.
\<close>

definition validate_fields :: "(string \<Rightarrow> pyfloat option) \<Rightarrow> raw_fields \<Rightarrow> pydict option" where
  "validate_fields float_of_str f =
     (if list_all (\<lambda>v. v \<noteq> ''N/A'') [raw_lat f, raw_lon f, raw_country f, raw_city f] then
        (case float_of_str (raw_lat f) of
           None \<Rightarrow> None
         | Some lat_float \<Rightarrow>
            (case float_of_str (raw_lon f) of
               None \<Rightarrow> None
             | Some lon_float \<Rightarrow>
                 if float_le (Finite (- 90)) lat_float \<and> float_le lat_float (Finite 90)
                    \<and> float_le (Finite (- 180)) lon_float \<and> float_le lon_float (Finite 180)
                 then Some (camera_record lat_float lon_float f)
                 else None))
      else None)"

definition extract_camera_details ::
  "(string \<Rightarrow> pyfloat option) \<Rightarrow> (string \<Rightarrow> exn + detail_page) \<Rightarrow> string \<Rightarrow> pydict option" where
  "extract_camera_details float_of_str session_get camera_url =
     (case session_get camera_url of
        Inl e \<Rightarrow> None
      | Inr soup \<Rightarrow>
         (case details_div soup of
            None \<Rightarrow> None
          | Some details \<Rightarrow>
             (let lat = get_detail details ''Latitude:'';
                  lon = get_detail details ''Longitude:'';
                  country = get_detail details ''Country:'';
                  city = get_detail details ''City:'';
                  region = get_detail details ''Region:'';
                  manufacturer = get_detail details ''Manufacturer:''
              in case image_tag soup of
                   ImageNoSrc \<Rightarrow> None
                 | NoImage \<Rightarrow>
                     validate_fields float_of_str
                       \<lparr>raw_lat = lat, raw_lon = lon, raw_country = country, raw_city = city,
                        raw_region = region, raw_manufacturer = manufacturer,
                        raw_image_url = ''N/A'', raw_page_url = camera_url\<rparr>
                 | ImageSrc src \<Rightarrow>
                     validate_fields float_of_str
                       \<lparr>raw_lat = lat, raw_lon = lon, raw_country = country, raw_city = city,
                        raw_region = region, raw_manufacturer = manufacturer,
                        raw_image_url = src, raw_page_url = camera_url\<rparr>)))"

text \<open>
  The acceptance condition in the specification's words: the four required fields are
  not the sentinel, latitude and longitude parse as floats, and the parsed values lie in
  \<open>[-90, 90]\<close> and \<open>[-180, 180]\<close>.
\<close>

definition in_range :: "real \<Rightarrow> real \<Rightarrow> pyfloat \<Rightarrow> bool" where
  "in_range lo hi v = (case v of Finite x \<Rightarrow> lo \<le> x \<and> x \<le> hi | _ \<Rightarrow> False)"

definition validator_accepts :: "(string \<Rightarrow> pyfloat option) \<Rightarrow> raw_fields \<Rightarrow> bool" where
  "validator_accepts float_of_str f =
     (raw_lat f \<noteq> ''N/A'' \<and> raw_lon f \<noteq> ''N/A'' \<and> raw_country f \<noteq> ''N/A''
      \<and> raw_city f \<noteq> ''N/A''
      \<and> (case float_of_str (raw_lat f) of None \<Rightarrow> False | Some x \<Rightarrow> in_range (- 90) 90 x)
      \<and> (case float_of_str (raw_lon f) of None \<Rightarrow> False | Some y \<Rightarrow> in_range (- 180) 180 y))"

section \<open>main.py: get\_camera\_links and scrape\_cameras\<close>

text \<open>
  A listing page is what \<open>session.get\<close> and the selector give for a page number: an
  exception, or the \<open>href\<close> attribute of each selected element (\<open>None\<close> for an
  element without one, where \<open>link['href']\<close> raises \<open>KeyError\<close>). Only
  \<open>RequestException\<close> is caught in \<open>get_camera_links\<close>.
\<close>

definition scraper_base_url :: string where
  "scraper_base_url = ''http://www.insecam.org''"

fun hrefs :: "string option list \<Rightarrow> exn + string list" where
  "hrefs [] = Inr []"
| "hrefs (None # links) = Inl KeyError"
| "hrefs (Some h # links) =
     (case hrefs links of Inl e \<Rightarrow> Inl e | Inr rest \<Rightarrow> Inr ((scraper_base_url @ h) # rest))"

definition get_camera_links :: "(int \<Rightarrow> exn + string option list) \<Rightarrow> int \<Rightarrow> exn + string list" where
  "get_camera_links listing page_num =
     (case listing page_num of
        Inl RequestException \<Rightarrow> Inr []
      | Inl e \<Rightarrow> Inl e
      | Inr camera_links \<Rightarrow> if camera_links = [] then Inr [] else hrefs camera_links)"

fun collect_links :: "(int \<Rightarrow> exn + string option list) \<Rightarrow> int list \<Rightarrow> exn + string list" where
  "collect_links listing [] = Inr []"
| "collect_links listing (page_num # pages) =
     (case get_camera_links listing page_num of
        Inl e \<Rightarrow> Inl e
      | Inr links \<Rightarrow>
         (case collect_links listing pages of
            Inl e \<Rightarrow> Inl e
          | Inr rest \<Rightarrow> Inr (links @ rest)))"

text \<open>
  The result loop of \<open>scrape_cameras\<close> (lines 152 to 175). The state is the two
  counters, the accepted list and what the loop has printed or saved so far; a
  completed future is its URL and what \<open>future.result()\<close> gives.
\<close>

datatype event =
    Progress nat nat nat
  | IntermediateSave "pydict list"
  | ErrorLogged string

record scrape_state =
  processed_count :: nat
  scraped_count :: nat
  camera_data :: "pydict list"
  events :: "event list"

definition initial_state :: scrape_state where
  "initial_state = \<lparr>processed_count = 0, scraped_count = 0, camera_data = [], events = []\<rparr>"

definition on_completed :: "nat \<Rightarrow> scrape_state \<Rightarrow> string \<times> (exn + pydict option) \<Rightarrow> scrape_state" where
  "on_completed n_links s fut =
     (let s1 = s\<lparr>processed_count := processed_count s + 1\<rparr> in
      case snd fut of
        Inl e \<Rightarrow> s1\<lparr>events := events s1 @ [ErrorLogged (fst fut)]\<rparr>
      | Inr None \<Rightarrow> s1
      | Inr (Some result) \<Rightarrow>
          if result \<noteq> [] then
            (let s2 = s1\<lparr>camera_data := camera_data s1 @ [result],
                         scraped_count := scraped_count s1 + 1\<rparr>;
                 s3 = (if processed_count s2 mod 50 = 0
                       then s2\<lparr>events := events s2 @
                              [Progress (processed_count s2) n_links (scraped_count s2)]\<rparr>
                       else s2)
             in if scraped_count s3 mod 100 = 0
                then s3\<lparr>events := events s3 @ [IntermediateSave (camera_data s3)]\<rparr>
                else s3)
          else s1)"

text \<open>
  \<open>scrape_cameras\<close> on a fresh scraper. \<open>sched\<close> is the order in which the futures of
  the distinct links complete (it also absorbs the order of \<open>list(set(...))\<close>). With
  no link at all the final success rate divides by zero.
\<close>

definition scrape_cameras ::
  "(string \<Rightarrow> pyfloat option) \<Rightarrow> (int \<Rightarrow> exn + string option list) \<Rightarrow>
   (string \<Rightarrow> exn + detail_page) \<Rightarrow> (string list \<Rightarrow> string list) \<Rightarrow> int \<Rightarrow> exn + scrape_state" where
  "scrape_cameras float_of_str listing session_get sched num_pages =
     (case collect_links listing [1..num_pages] of
        Inl e \<Rightarrow> Inl e
      | Inr links \<Rightarrow>
         (let all_camera_links = remdups links;
              completed = map (\<lambda>url. (url, Inr (extract_camera_details float_of_str session_get url)))
                            (sched all_camera_links);
              final = foldl (on_completed (length all_camera_links)) initial_state completed
          in if length all_camera_links = 0 then Inl ZeroDivisionError else Inr final))"

text \<open>
  A detail page with valid latitude, longitude, country and city, in the
  specification's words.
\<close>

definition valid_detail_page :: "(string \<Rightarrow> pyfloat option) \<Rightarrow> exn + detail_page \<Rightarrow> bool" where
  "valid_detail_page float_of_str got =
     (case got of
        Inl e \<Rightarrow> False
      | Inr soup \<Rightarrow>
         (case details_div soup of
            None \<Rightarrow> False
          | Some details \<Rightarrow>
              validator_accepts float_of_str
                \<lparr>raw_lat = get_detail details ''Latitude:'',
                 raw_lon = get_detail details ''Longitude:'',
                 raw_country = get_detail details ''Country:'',
                 raw_city = get_detail details ''City:'',
                 raw_region = [], raw_manufacturer = [],
                 raw_image_url = [], raw_page_url = []\<rparr>))"

text \<open>
  The image element of a fetched page can be read: there is none, or it has a \<open>src\<close>
  attribute. This is a condition of the code, not of the specification: line 83 raises
  \<open>KeyError\<close> on an image element without \<open>src\<close>.
\<close>

definition image_src_readable :: "exn + detail_page \<Rightarrow> bool" where
  "image_src_readable got =
     (case got of Inl e \<Rightarrow> True | Inr soup \<Rightarrow> image_tag soup \<noteq> ImageNoSrc)"

definition record_keys :: "string list" where
  "record_keys = [''latitude'', ''longitude'', ''country'', ''city'', ''region'',
                  ''manufacturer'', ''image_url'', ''page_url'']"

text \<open>
  What a run hands to the map generator, and the provenance keys of a Record: the key
  \<open>origin\<close> of the specification and the key \<open>source\<close> that the expander writes.
\<close>

definition scraped_records :: "exn + scrape_state \<Rightarrow> pydict list" where
  "scraped_records res = (case res of Inl e \<Rightarrow> [] | Inr final \<Rightarrow> camera_data final)"

definition provenance :: "pydict \<Rightarrow> pyval option \<times> pyval option" where
  "provenance r = (map_of r ''origin'', map_of r ''source'')"

section \<open>smart\_camera\_expander.py: get\_ip\_geolocation and test\_camera\_url\<close>

text \<open>
  The network is a function from the requested URL to what \<open>session.get\<close> does: it
  raises, or it returns a response. Of a response the code reads the status code, the
  \<open>content-type\<close> header and \<open>response.json()\<close>, which raises on a malformed body;
  a JSON value that is no object has no \<open>get\<close>. The values of a JSON object are taken
  to be scalars.
\<close>

datatype json_body = BadJson | JsonOther | JsonObject pydict

record http_response =
  status_code :: int
  content_type :: "string option"
  json :: json_body

fun truthy :: "pyval \<Rightarrow> bool" where
  "truthy PNone = False"
| "truthy (PBool b) = b"
| "truthy (PNum (Finite x)) = (x \<noteq> 0)"
| "truthy (PNum _) = True"
| "truthy (PStr s) = (s \<noteq> [])"

text \<open>
  \<open>parsed.hostname\<close> may be \<open>None\<close>; in an f-string it is then printed as
  \<open>None\<close>.
\<close>

definition str_opt :: "string option \<Rightarrow> string" where
  "str_opt h = (case h of None \<Rightarrow> ''None'' | Some s \<Rightarrow> s)"

datatype action = Get string | Sleep

definition provider_a_url :: "string option \<Rightarrow> string" where
  "provider_a_url ip_address = ''https://ipapi.co/'' @ str_opt ip_address @ ''/json/''"

definition provider_b_url :: "string option \<Rightarrow> string" where
  "provider_b_url ip_address = ''http://ip-api.com/json/'' @ str_opt ip_address"

text \<open>
  The two \<open>if response.status_code == 200\<close> blocks: \<open>Inl\<close> when the block raises,
  \<open>Inr (Some geo)\<close> when it returns, \<open>Inr None\<close> when control falls through.
\<close>

definition provider_a_block :: "http_response \<Rightarrow> exn + pydict option" where
  "provider_a_block response =
     (if status_code response = 200 then
        (case json response of
           BadJson \<Rightarrow> Inl ValueError
         | JsonOther \<Rightarrow> Inl AttributeError
         | JsonObject data \<Rightarrow>
             if \<not> truthy (dict_get data ''error'' PNone) then
               Inr (Some [(''lat'', dict_get data ''latitude'' PNone),
                          (''lon'', dict_get data ''longitude'' PNone),
                          (''country'', dict_get data ''country_name'' PNone),
                          (''city'', dict_get data ''city'' PNone),
                          (''region'', dict_get data ''region'' PNone)])
             else Inr None)
      else Inr None)"

definition provider_b_block :: "http_response \<Rightarrow> exn + pydict option" where
  "provider_b_block response =
     (if status_code response = 200 then
        (case json response of
           BadJson \<Rightarrow> Inl ValueError
         | JsonOther \<Rightarrow> Inl AttributeError
         | JsonObject data \<Rightarrow>
             if dict_get data ''status'' PNone = PStr ''success'' then
               Inr (Some [(''lat'', dict_get data ''lat'' PNone),
                          (''lon'', dict_get data ''lon'' PNone),
                          (''country'', dict_get data ''country'' PNone),
                          (''city'', dict_get data ''city'' PNone),
                          (''region'', dict_get data ''regionName'' PNone)])
             else Inr None)
      else Inr None)"

text \<open>
  \<open>get_ip_geolocation\<close>: one \<open>try\<close> around both providers, \<open>except Exception: pass\<close>,
  then \<open>return None\<close>. The second component is what the call did on the network, in
  order.
\<close>

definition get_ip_geolocation ::
  "(string \<Rightarrow> exn + http_response) \<Rightarrow> string option \<Rightarrow> pydict option \<times> action list" where
  "get_ip_geolocation session_get ip_address =
     (case session_get (provider_a_url ip_address) of
        Inl e \<Rightarrow> (None, [Get (provider_a_url ip_address)])
      | Inr response_a \<Rightarrow>
         (case provider_a_block response_a of
            Inl e \<Rightarrow> (None, [Get (provider_a_url ip_address)])
          | Inr (Some geo) \<Rightarrow> (Some geo, [Get (provider_a_url ip_address)])
          | Inr None \<Rightarrow>
             (case session_get (provider_b_url ip_address) of
                Inl e \<Rightarrow>
                  (None, [Get (provider_a_url ip_address), Sleep, Get (provider_b_url ip_address)])
              | Inr response_b \<Rightarrow>
                 (case provider_b_block response_b of
                    Inl e \<Rightarrow>
                      (None, [Get (provider_a_url ip_address), Sleep,
                              Get (provider_b_url ip_address)])
                  | Inr (Some geo) \<Rightarrow>
                      (Some geo, [Get (provider_a_url ip_address), Sleep,
                                  Get (provider_b_url ip_address)])
                  | Inr None \<Rightarrow>
                      (None, [Get (provider_a_url ip_address), Sleep,
                              Get (provider_b_url ip_address), Sleep])))))"

text \<open>
  \<open>urlparse\<close> is taken as a parameter. Of its result the code reads \<open>hostname\<close>
  (\<open>None\<close> or a string), \<open>port\<close> (absent, a number, or \<open>ValueError\<close> when the port
  is no number in range) and \<open>path\<close>.
\<close>

datatype port_attr = PortInvalid | PortAbsent | Port nat

record parsed_url =
  hostname :: "string option"
  port :: port_attr
  path :: string

text \<open>\<open>str(n)\<close> for a non-negative integer.\<close>

definition digit_char :: "nat \<Rightarrow> char" where
  "digit_char d = ''0123456789'' ! d"

function str_nat :: "nat \<Rightarrow> string" where
  "str_nat n = (if n < 10 then [digit_char n] else str_nat (n div 10) @ [digit_char (n mod 10)])"
  by pat_completeness auto
termination
  by (relation "measure id") auto

declare str_nat.simps [simp del]

text \<open>\<open>parsed.port or 80\<close>, where the attribute access may raise.\<close>

definition port_or_80 :: "port_attr \<Rightarrow> exn + nat" where
  "port_or_80 p =
     (case p of
        PortInvalid \<Rightarrow> Inl ValueError
      | PortAbsent \<Rightarrow> Inr 80
      | Port n \<Rightarrow> Inr (if n = 0 then 80 else n))"

definition pyval_of_host :: "string option \<Rightarrow> pyval" where
  "pyval_of_host h = (case h of None \<Rightarrow> PNone | Some s \<Rightarrow> PStr s)"

definition test_camera_url ::
  "(string \<Rightarrow> exn + parsed_url) \<Rightarrow> (string \<Rightarrow> exn + http_response) \<Rightarrow> string \<Rightarrow> pydict option" where
  "test_camera_url urlparse session_get url =
     (case session_get url of
        Inl e \<Rightarrow> None
      | Inr response \<Rightarrow>
          if status_code response = 200 then
            (let content_type =
                   lower (case content_type response of None \<Rightarrow> [] | Some v \<Rightarrow> v)
             in if list_ex (\<lambda>media_type. str_in media_type content_type)
                     [''image/'', ''video/'', ''multipart/x-mixed-replace'']
                then
                  (case urlparse url of
                     Inl e \<Rightarrow> None
                   | Inr parsed \<Rightarrow>
                      (let ip = hostname parsed in
                       case fst (get_ip_geolocation session_get ip) of
                         None \<Rightarrow> None
                       | Some geo_info \<Rightarrow>
                           if geo_info \<noteq> [] then
                             (let manufacturer = detect_manufacturer url in
                              case port_or_80 (port parsed) of
                                Inl e \<Rightarrow> None
                              | Inr p \<Rightarrow>
                                  Some [(''latitude'', dict_get geo_info ''lat'' (PNum (Finite 0))),
                                        (''longitude'', dict_get geo_info ''lon'' (PNum (Finite 0))),
                                        (''country'', dict_get geo_info ''country'' (PStr ''Unknown'')),
                                        (''city'', dict_get geo_info ''city'' (PStr ''Unknown'')),
                                        (''region'', dict_get geo_info ''region'' (PStr ''Unknown'')),
                                        (''manufacturer'', PStr manufacturer),
                                        (''image_url'', PStr url),
                                        (''page_url'',
                                           PStr (''http://'' @ str_opt ip @ '':'' @ str_nat p)),
                                        (''source'', PStr ''smart_expansion''),
                                        (''ip_address'', pyval_of_host ip)])
                           else None))
                else None)
          else None)"

text \<open>
  The probe's acceptance of a response, in the specification's words: the status is
  success and the content type names an image, a video or a multipart-replace stream.
  \<open>expansion_record\<close> is the dictionary of lines 203 to 214 for a URL, its host, its
  port and a resolver answer.
\<close>

definition probe_accepts :: "http_response \<Rightarrow> bool" where
  "probe_accepts response =
     (status_code response = 200
      \<and> (\<exists>media_type \<in> set [''image/'', ''video/'', ''multipart/x-mixed-replace''].
            str_in media_type
              (lower (case content_type response of None \<Rightarrow> [] | Some v \<Rightarrow> v))))"

definition expansion_record :: "string \<Rightarrow> string option \<Rightarrow> nat \<Rightarrow> pydict \<Rightarrow> pydict" where
  "expansion_record url ip p geo_info =
     [(''latitude'', dict_get geo_info ''lat'' (PNum (Finite 0))),
      (''longitude'', dict_get geo_info ''lon'' (PNum (Finite 0))),
      (''country'', dict_get geo_info ''country'' (PStr ''Unknown'')),
      (''city'', dict_get geo_info ''city'' (PStr ''Unknown'')),
      (''region'', dict_get geo_info ''region'' (PStr ''Unknown'')),
      (''manufacturer'', PStr (detect_manufacturer url)),
      (''image_url'', PStr url),
      (''page_url'', PStr (''http://'' @ str_opt ip @ '':'' @ str_nat p)),
      (''source'', PStr ''smart_expansion''),
      (''ip_address'', pyval_of_host ip)]"

text \<open>
  Validator acceptance of a finished Record, in the specification's words: latitude and
  longitude are floats in range, country and city are strings other than the sentinel.
\<close>

definition record_accepted :: "pydict \<Rightarrow> bool" where
  "record_accepted r =
     (case (map_of r ''latitude'', map_of r ''longitude'', map_of r ''country'', map_of r ''city'') of
        (Some (PNum x), Some (PNum y), Some (PStr c), Some (PStr t)) \<Rightarrow>
           in_range (- 90) 90 x \<and> in_range (- 180) 180 y \<and> c \<noteq> ''N/A'' \<and> t \<noteq> ''N/A''
      | _ \<Rightarrow> False)"

section \<open>smart\_camera\_expander.py: the candidate generator\<close>

text \<open>
  \<open>s.replace(old, new)\<close>: every occurrence of \<open>old\<close>, left to right and without
  overlap. With an empty \<open>old\<close>, Python puts \<open>new\<close> before every character and at
  the end.
\<close>

function str_replace :: "string \<Rightarrow> string \<Rightarrow> string \<Rightarrow> string" where
  "str_replace old new s =
     (if old = [] then new @ concat (map (\<lambda>c. c # new) s)
      else if s = [] then []
      else if prefix old s then new @ str_replace old new (drop (length old) s)
      else hd s # str_replace old new (tl s))"
  by pat_completeness auto
termination
  by (relation "measure (\<lambda>(old, new, s). length s)") auto

declare str_replace.simps [simp del]

text \<open>
  The random source is an unbounded sequence of raw draws; \<open>random.randint(lo, hi)\<close>
  takes the next one and returns a value between \<open>lo\<close> and \<open>hi\<close>, both included.
  Every sequence of results of \<open>randint\<close> comes from some sequence of raw draws.
\<close>

type_synonym rng = "nat \<Rightarrow> nat"

definition rng_tail :: "rng \<Rightarrow> rng" where
  "rng_tail g = (\<lambda>i. g (Suc i))"

definition randint :: "nat \<Rightarrow> nat \<Rightarrow> nat \<Rightarrow> nat" where
  "randint lo hi raw = lo + raw mod (hi - lo + 1)"

text \<open>
  \<open>ipaddress.IPv4Address\<close> on a string: four octets separated by dots, each one to
  three ASCII digits with no leading zero and a value of at most 255. The address is
  kept as an integer below \<open>2 ^ 32\<close>; \<open>str\<close> prints the four octets in decimal.
  \<open>IPv4Network(ip/24, strict=False).network_address\<close> clears the last octet, and
  adding an integer to an address raises when the sum leaves the address range.
\<close>

definition is_digit :: "char \<Rightarrow> bool" where
  "is_digit c = (c \<in> set ''0123456789'')"

definition digit_val :: "char \<Rightarrow> nat" where
  "digit_val c = of_char c - 48"

definition nat_of_digits :: "string \<Rightarrow> nat" where
  "nat_of_digits s = foldl (\<lambda>acc c. 10 * acc + digit_val c) 0 s"

definition parse_octet :: "string \<Rightarrow> nat option" where
  "parse_octet octet_str =
     (if octet_str = [] then None
      else if \<not> list_all is_digit octet_str then None
      else if length octet_str > 3 then None
      else if octet_str \<noteq> ''0'' \<and> hd octet_str = CHR ''0'' then None
      else if nat_of_digits octet_str > 255 then None
      else Some (nat_of_digits octet_str))"

fun split_char :: "char \<Rightarrow> string \<Rightarrow> string list" where
  "split_char sep [] = [] # []"
| "split_char sep (c # cs) =
     (if c = sep then [] # split_char sep cs
      else (c # hd (split_char sep cs)) # tl (split_char sep cs))"

definition IPv4Address :: "string \<Rightarrow> nat option" where
  "IPv4Address address =
     (case map parse_octet (split_char CHR ''.'' address) of
        [Some a, Some b, Some c, Some d] \<Rightarrow> Some (((a * 256 + b) * 256 + c) * 256 + d)
      | _ \<Rightarrow> None)"

definition ip_str :: "nat \<Rightarrow> string" where
  "ip_str a =
     str_nat (a div 16777216 mod 256) @ ''.'' @ str_nat (a div 65536 mod 256) @ ''.''
       @ str_nat (a div 256 mod 256) @ ''.'' @ str_nat (a mod 256)"

definition network_address :: "nat \<Rightarrow> nat" where
  "network_address a = a - a mod 256"

definition ip_add :: "nat \<Rightarrow> nat \<Rightarrow> nat option" where
  "ip_add a n = (if a + n < 4294967296 then Some (a + n) else None)"

definition mk_url :: "string \<Rightarrow> nat \<Rightarrow> string \<Rightarrow> string" where
  "mk_url host p pth = ''http://'' @ host @ '':'' @ str_nat p @ pth"

text \<open>
  The loop of lines 114 to 124, one raw draw per round. An exception inside the loop
  ends it and keeps what was appended before (the bare \<open>except: pass\<close>).
\<close>

fun ip_variations :: "nat \<Rightarrow> rng \<Rightarrow> string \<Rightarrow> nat \<Rightarrow> nat \<Rightarrow> string \<Rightarrow> string list \<times> rng" where
  "ip_variations 0 g base_ip network base_port base_path = ([], g)"
| "ip_variations (Suc n) g base_ip network base_port base_path =
     (case ip_add network (randint 1 254 (g 0)) of
        None \<Rightarrow> ([], rng_tail g)
      | Some a \<Rightarrow>
          (let random_ip = ip_str a;
               new_urls =
                 (if random_ip \<noteq> base_ip then
                    mk_url random_ip base_port base_path
                      # (if base_port = 80
                         then map (\<lambda>alt_port. mk_url random_ip alt_port base_path)
                                [8080, 8081, 8888]
                         else [])
                  else []);
               rest = ip_variations n (rng_tail g) base_ip network base_port base_path
           in (new_urls @ fst rest, snd rest)))"

definition generate_path_variations :: "rng \<Rightarrow> string \<Rightarrow> string list \<times> rng" where
  "generate_path_variations g base_path =
     (let v1 = (if str_in ''Resolution='' base_path then
                  [str_replace ''Resolution=640x480'' ''Resolution=320x240'' base_path,
                   str_replace ''Resolution=640x480'' ''Resolution=800x600'' base_path,
                   str_replace ''Resolution=640x480'' ''Resolution=1024x768'' base_path]
                else []);
          v2 = (if str_in ''Quality='' base_path then
                  [str_replace ''Quality=Clarity'' ''Quality=Standard'' base_path,
                   str_replace ''Quality=Standard'' ''Quality=Clarity'' base_path]
                else []);
          v3 = (if str_in ''resolution='' base_path then
                  [str_replace ''resolution=640'' ''resolution=320'' base_path,
                   str_replace ''resolution=640'' ''resolution=800'' base_path]
                else []);
          v4 = (if str_in ''cam_1'' base_path then
                  map (\<lambda>i. str_replace ''cam_1'' (''cam_'' @ str_nat i) base_path) [2..<6]
                else []);
          v5 = (if str_in ''channel=1'' base_path then
                  map (\<lambda>i. str_replace ''channel=1'' (''channel='' @ str_nat i) base_path) [2..<5]
                else [])
      in if str_in ''COUNTER'' base_path then
           (v1 @ v2 @ v3 @ v4 @ v5
              @ [str_replace ''COUNTER'' (str_nat (randint 1000 9999 (g 0))) base_path,
                 str_replace ''COUNTER'' [] base_path],
            rng_tail g)
         else (v1 @ v2 @ v3 @ v4 @ v5, g))"

text \<open>
  \<open>generate_similar_urls\<close>. A value of \<open>image_url\<close> that is no string is either falsy
  or makes \<open>urlparse\<close> raise; both end with the empty list, as does an invalid port.
  \<open>list(set(urls))\<close> returns the distinct URLs in an order that Python does not fix;
  \<open>remdups\<close> stands for one such order.
\<close>

definition generate_similar_urls ::
  "(string \<Rightarrow> exn + parsed_url) \<Rightarrow> rng \<Rightarrow> pydict \<Rightarrow> int \<Rightarrow> string list \<times> rng" where
  "generate_similar_urls urlparse g base_camera variations =
     (case dict_get base_camera ''image_url'' (PStr []) of
        PStr base_url \<Rightarrow>
          if base_url = [] then ([], g)
          else
            (case urlparse base_url of
               Inl e \<Rightarrow> ([], g)
             | Inr parsed \<Rightarrow>
                (case hostname parsed of
                   None \<Rightarrow> ([], g)
                 | Some base_ip \<Rightarrow>
                     if base_ip = [] then ([], g)
                     else
                       (case port_or_80 (port parsed) of
                          Inl e \<Rightarrow> ([], g)
                        | Inr base_port \<Rightarrow>
                           (let base_path = path parsed;
                                ip_part =
                                  (case IPv4Address base_ip of
                                     None \<Rightarrow> ([], g)
                                   | Some ip_obj \<Rightarrow>
                                       ip_variations (nat variations) g base_ip
                                         (network_address ip_obj) base_port base_path);
                                path_part =
                                  (if base_path \<noteq> [] then
                                     (let pv = generate_path_variations (snd ip_part) base_path
                                      in (map (\<lambda>path_var. mk_url base_ip base_port path_var)
                                            (take 10 (fst pv)),
                                          snd pv))
                                   else ([], snd ip_part))
                            in (remdups (fst ip_part @ fst path_part), snd path_part)))))
      | _ \<Rightarrow> ([], g))"

text \<open>
  The host of a URL of the shape the generator builds, \<open>http://host:port/path\<close>.
\<close>

definition candidate_host :: "string \<Rightarrow> string" where
  "candidate_host u = takeWhile (\<lambda>c. c \<noteq> CHR '':'') (drop (length ''http://'') u)"

section \<open>smart\_camera\_expander.py: expand\_camera\_database\<close>

text \<open>
  Keys of \<open>cameras_by_country\<close> are compared as Python compares dictionary keys:
  \<open>True\<close> and \<open>False\<close> are equal to the numbers 1 and 0. The dictionary keeps its
  keys in insertion order.
\<close>

fun py_key_eq :: "pyval \<Rightarrow> pyval \<Rightarrow> bool" where
  "py_key_eq (PBool b) (PNum x) = (x = Finite (if b then 1 else 0))"
| "py_key_eq (PNum x) (PBool b) = (x = Finite (if b then 1 else 0))"
| "py_key_eq a b = (a = b)"

fun add_to_country :: "pyval \<Rightarrow> pydict \<Rightarrow> (pyval \<times> pydict list) list \<Rightarrow> (pyval \<times> pydict list) list" where
  "add_to_country country camera [] = [(country, [camera])]"
| "add_to_country country camera ((k, cameras) # groups) =
     (if py_key_eq k country then (k, cameras @ [camera]) # groups
      else (k, cameras) # add_to_country country camera groups)"

definition cameras_by_country :: "pydict list \<Rightarrow> (pyval \<times> pydict list) list" where
  "cameras_by_country existing_cameras =
     foldl (\<lambda>groups camera.
              add_to_country (dict_get camera ''country'' (PStr ''Unknown'')) camera groups)
       [] existing_cameras"

text \<open>
  The inner loop over the sample cameras of one country; \<open>break\<close> leaves this loop
  only, so the next country is still visited.
\<close>

fun sample_loop ::
  "(string \<Rightarrow> exn + parsed_url) \<Rightarrow> int \<Rightarrow> pydict list \<Rightarrow> string list \<times> rng \<Rightarrow> string list \<times> rng" where
  "sample_loop urlparse target_new_cameras [] acc = acc"
| "sample_loop urlparse target_new_cameras (camera # sample_cameras) acc =
     (let variations = generate_similar_urls urlparse (snd acc) camera 15;
          test_urls = fst acc @ fst variations
      in if int (length test_urls) > target_new_cameras * 3 then (test_urls, snd variations)
         else sample_loop urlparse target_new_cameras sample_cameras (test_urls, snd variations))"

definition generate_test_urls ::
  "(string \<Rightarrow> exn + parsed_url) \<Rightarrow> rng \<Rightarrow> pydict list \<Rightarrow> int \<Rightarrow> string list \<times> rng" where
  "generate_test_urls urlparse g existing_cameras target_new_cameras =
     foldl (\<lambda>acc group. sample_loop urlparse target_new_cameras (take 5 (snd group)) acc)
       ([], g) (cameras_by_country existing_cameras)"

text \<open>\<open>xs[:k]\<close>: a negative \<open>k\<close> counts from the end.\<close>

definition py_take :: "int \<Rightarrow> 'a list \<Rightarrow> 'a list" where
  "py_take k xs = (if 0 \<le> k then take (nat k) xs else take (length xs - nat (- k)) xs)"

text \<open>
  Lines 324 to 337. \<open>set_order\<close> is the order in which Python iterates over
  \<open>set(test_urls)\<close>. \<open>submitted_urls\<close> are the URLs handed to
  \<open>executor.submit(self.test_camera_url, url)\<close>.
\<close>

definition urls_to_test ::
  "(string \<Rightarrow> exn + parsed_url) \<Rightarrow> (string list \<Rightarrow> string list) \<Rightarrow> rng \<Rightarrow> pydict list \<Rightarrow> int \<Rightarrow> string list" where
  "urls_to_test urlparse set_order g existing_cameras target_new_cameras =
     (let test_urls = fst (generate_test_urls urlparse g existing_cameras target_new_cameras);
          existing_urls = map (\<lambda>camera. dict_get camera ''image_url'' (PStr [])) existing_cameras
      in filter (\<lambda>url. PStr url \<notin> set existing_urls) (set_order (remdups test_urls)))"

definition submitted_urls ::
  "(string \<Rightarrow> exn + parsed_url) \<Rightarrow> (string list \<Rightarrow> string list) \<Rightarrow> rng \<Rightarrow> pydict list \<Rightarrow> int \<Rightarrow> string list" where
  "submitted_urls urlparse set_order g existing_cameras target_new_cameras =
     (if existing_cameras = [] then []
      else py_take (target_new_cameras * 2)
             (urls_to_test urlparse set_order g existing_cameras target_new_cameras))"

text \<open>
  The result loop: results in completion order (\<open>sched\<close> is the order in which the
  submitted futures complete), the loop ends early once the target is reached. Without
  existing cameras the run returns at once.
\<close>

fun collect_new :: "int \<Rightarrow> pydict list \<Rightarrow> pydict option list \<Rightarrow> pydict list" where
  "collect_new target_new_cameras new_cameras [] = new_cameras"
| "collect_new target_new_cameras new_cameras (None # results) =
     collect_new target_new_cameras new_cameras results"
| "collect_new target_new_cameras new_cameras (Some result # results) =
     (if result \<noteq> [] then
        (if int (length (new_cameras @ [result])) \<ge> target_new_cameras
         then new_cameras @ [result]
         else collect_new target_new_cameras (new_cameras @ [result]) results)
      else collect_new target_new_cameras new_cameras results)"

definition expand_camera_database ::
  "(string \<Rightarrow> exn + parsed_url) \<Rightarrow> (string list \<Rightarrow> string list) \<Rightarrow> (string list \<Rightarrow> string list) \<Rightarrow>
   rng \<Rightarrow> (string \<Rightarrow> exn + http_response) \<Rightarrow> pydict list \<Rightarrow> int \<Rightarrow> pydict list" where
  "expand_camera_database urlparse set_order sched g session_get existing_cameras target_new_cameras =
     (if existing_cameras = [] then []
      else collect_new target_new_cameras []
             (map (test_camera_url urlparse session_get)
                (sched (submitted_urls urlparse set_order g existing_cameras target_new_cameras))))"

text \<open>Concrete pages and float literals used to run the functions.\<close>

definition example_float :: "string \<Rightarrow> pyfloat option" where
  "example_float = map_of [(''48.85'', Finite 48.85), (''2.35'', Finite 2.35),
                           (''91.0'', Finite 91), (''nan'', NaN)]"

definition example_listing :: "int \<Rightarrow> exn + string option list" where
  "example_listing page_num =
     (if page_num = 1 then Inr [Some ''/en/view/1/'', Some ''/en/view/2/'', Some ''/en/view/3/'']
      else Inr [])"

definition example_detail :: "string \<Rightarrow> exn + detail_page" where
  "example_detail url =
     Inr \<lparr>details_div = Some (map_of [(''Latitude:'', ''48.85''), (''Longitude:'', ''2.35''),
                                       (''Country:'', ''France''), (''City:'', ''Paris'')]),
          image_tag = ImageSrc ''http://203.0.113.5:80/cam_1.cgi''\<rparr>"

definition example_geo_b :: http_response where
  "example_geo_b =
     \<lparr>status_code = 200, content_type = Some ''application/json'',
      json = JsonObject [(''status'', PStr ''success''), (''country'', PStr ''France''),
                         (''regionName'', PStr ''Ile-de-France''), (''city'', PStr ''Paris''),
                         (''lat'', PNum (Finite 48.85)), (''lon'', PNum (Finite 2.35))]\<rparr>"

text \<open>Provider A times out for 203.0.113.7 while provider B has an answer.\<close>

definition example_net_a_down :: "string \<Rightarrow> exn + http_response" where
  "example_net_a_down u =
     (if u = ''https://ipapi.co/203.0.113.7/json/'' then Inl RequestException
      else if u = ''http://ip-api.com/json/203.0.113.7'' then Inr example_geo_b
      else Inl RequestException)"

text \<open>
  A camera answers at 203.0.113.9 and provider A knows the address but not its place:
  every location field of its answer is \<open>null\<close>.
\<close>

definition example_net_null_geo :: "string \<Rightarrow> exn + http_response" where
  "example_net_null_geo u =
     (if u = ''http://203.0.113.9:80/cam_2.cgi''
      then Inr \<lparr>status_code = 200, content_type = Some ''image/jpeg'', json = BadJson\<rparr>
      else if u = ''https://ipapi.co/203.0.113.9/json/''
      then Inr \<lparr>status_code = 200, content_type = Some ''application/json'',
                json = JsonObject [(''ip'', PStr ''203.0.113.9''), (''city'', PNone),
                                   (''region'', PNone), (''country_name'', PNone),
                                   (''latitude'', PNone), (''longitude'', PNone)]\<rparr>
      else Inl RequestException)"

text \<open>What \<open>urlparse\<close> returns on the URLs of the examples.\<close>

definition example_urlparse :: "string \<Rightarrow> exn + parsed_url" where
  "example_urlparse u =
     (if u = ''http://203.0.113.9:80/cam_2.cgi''
      then Inr \<lparr>hostname = Some ''203.0.113.9'', port = Port 80, path = ''/cam_2.cgi''\<rparr>
      else if u = ''http://203.0.113.5:80/cam_1.cgi?Resolution=640x480''
      then Inr \<lparr>hostname = Some ''203.0.113.5'', port = Port 80, path = ''/cam_1.cgi''\<rparr>
      else if u = ''http://example.com/cam_1.cgi''
      then Inr \<lparr>hostname = Some ''example.com'', port = PortAbsent, path = ''/cam_1.cgi''\<rparr>
      else if u = ''http://example.com:80/cam_2.cgi''
      then Inr \<lparr>hostname = Some ''example.com'', port = Port 80, path = ''/cam_2.cgi''\<rparr>
      else if u = ''http://example.com:99999/cam_1.cgi''
      then Inr \<lparr>hostname = Some ''example.com'', port = PortInvalid, path = ''/cam_1.cgi''\<rparr>
      else Inl ValueError)"

definition example_seed :: pydict where
  "example_seed =
     [(''country'', PStr ''France''),
      (''image_url'', PStr ''http://203.0.113.5:80/cam_1.cgi?Resolution=640x480'')]"

definition example_named_seed :: pydict where
  "example_named_seed =
     [(''country'', PStr ''France''), (''image_url'', PStr ''http://example.com/cam_1.cgi'')]"

definition example_bad_port_seed :: pydict where
  "example_bad_port_seed =
     [(''country'', PStr ''France''), (''image_url'', PStr ''http://example.com:99999/cam_1.cgi'')]"

definition example_known_variant :: pydict where
  "example_known_variant =
     [(''country'', PStr ''France''), (''image_url'', PStr ''http://example.com:80/cam_2.cgi'')]"

definition example_rng :: rng where
  "example_rng i = 7 * i + 3"


section \<open>Properties of detect\_manufacturer\<close>

lemma str_in_sublist: "str_in sub s \<longleftrightarrow> sublist sub s"
  by (induction s) (auto simp: sublist_Cons_right)

text \<open>
  C9. The manufacturer inference is a total function of the URL: its value is the result
  of the first matching row of the signature table on the lower-cased URL, \<open>Unknown\<close>
  when no row matches, and it is always one of the seven fixed names.
\<close>

theorem detect_manufacturer_table:
  "detect_manufacturer url = first_match signature_table (lower url) ''Unknown''
   \<and> detect_manufacturer url \<in> manufacturers"
  by (simp add: detect_manufacturer_def signature_table_def manufacturers_def Let_def)

theorem detect_manufacturer_table_witness:
  "detect_manufacturer ''http://203.0.113.5:80/CAM_1.cgi'' = ''WebcamXP''
   \<and> detect_manufacturer ''http://203.0.113.5:80/index.html'' = ''Unknown''
   \<and> detect_manufacturer ''http://203.0.113.5:80/axis-cgi/cam_1.cgi'' = ''Axis''"
  using detect_manufacturer_table [of "''http://203.0.113.5:80/CAM_1.cgi''"]
    detect_manufacturer_table [of "''http://203.0.113.5:80/index.html''"]
    detect_manufacturer_table [of "''http://203.0.113.5:80/axis-cgi/cam_1.cgi''"]
  by (simp add: signature_table_def lower_def lower_char_def)

section \<open>Properties of the validator\<close>

lemma in_range_float_le:
  "in_range lo hi v = (float_le (Finite lo) v \<and> float_le v (Finite hi))"
  by (cases v) (simp_all add: in_range_def)

text \<open>
  C4. The validator produces a Record exactly when latitude, longitude, country and city
  are not the sentinel, latitude and longitude parse as floats, and the parsed values are
  in \<open>[-90, 90]\<close> and \<open>[-180, 180]\<close>; the Record then holds the parsed coordinates. In
  every other case the result is \<open>None\<close>: no exception leaves the function.
\<close>

theorem validate_fields_iff:
  "(validator_accepts float_of_str f \<longrightarrow>
      (\<exists>x y. float_of_str (raw_lat f) = Some x \<and> float_of_str (raw_lon f) = Some y
         \<and> validate_fields float_of_str f = Some (camera_record x y f)))
   \<and> (\<not> validator_accepts float_of_str f \<longrightarrow> validate_fields float_of_str f = None)"
  by (auto simp: validate_fields_def validator_accepts_def in_range_float_le
      split: option.splits)

theorem validate_fields_iff_witness:
  "validator_accepts example_float
     \<lparr>raw_lat = ''48.85'', raw_lon = ''2.35'', raw_country = ''France'', raw_city = ''Paris'',
      raw_region = ''N/A'', raw_manufacturer = ''N/A'', raw_image_url = ''N/A'',
      raw_page_url = ''http://www.insecam.org/en/view/1/''\<rparr>
   \<and> validate_fields example_float
     \<lparr>raw_lat = ''48.85'', raw_lon = ''2.35'', raw_country = ''France'', raw_city = ''Paris'',
      raw_region = ''N/A'', raw_manufacturer = ''N/A'', raw_image_url = ''N/A'',
      raw_page_url = ''http://www.insecam.org/en/view/1/''\<rparr>
     = Some [(''latitude'', PNum (Finite 48.85)), (''longitude'', PNum (Finite 2.35)),
             (''country'', PStr ''France''), (''city'', PStr ''Paris''),
             (''region'', PStr ''N/A''), (''manufacturer'', PStr ''N/A''),
             (''image_url'', PStr ''N/A''),
             (''page_url'', PStr ''http://www.insecam.org/en/view/1/'')]
   \<and> \<not> validator_accepts example_float
     \<lparr>raw_lat = ''91.0'', raw_lon = ''2.35'', raw_country = ''France'', raw_city = ''Paris'',
      raw_region = ''N/A'', raw_manufacturer = ''N/A'', raw_image_url = ''N/A'',
      raw_page_url = ''http://www.insecam.org/en/view/1/''\<rparr>
   \<and> validate_fields example_float
     \<lparr>raw_lat = ''91.0'', raw_lon = ''2.35'', raw_country = ''France'', raw_city = ''Paris'',
      raw_region = ''N/A'', raw_manufacturer = ''N/A'', raw_image_url = ''N/A'',
      raw_page_url = ''http://www.insecam.org/en/view/1/''\<rparr> = None"
  using validate_fields_iff [of example_float
     "\<lparr>raw_lat = ''48.85'', raw_lon = ''2.35'', raw_country = ''France'', raw_city = ''Paris'',
      raw_region = ''N/A'', raw_manufacturer = ''N/A'', raw_image_url = ''N/A'',
      raw_page_url = ''http://www.insecam.org/en/view/1/''\<rparr>"]
    validate_fields_iff [of example_float
     "\<lparr>raw_lat = ''91.0'', raw_lon = ''2.35'', raw_country = ''France'', raw_city = ''Paris'',
      raw_region = ''N/A'', raw_manufacturer = ''N/A'', raw_image_url = ''N/A'',
      raw_page_url = ''http://www.insecam.org/en/view/1/''\<rparr>"]
  by (simp add: validator_accepts_def in_range_def example_float_def camera_record_def)

section \<open>Properties of the discovery pipeline\<close>

lemma validate_fields_keys:
  "validate_fields fos f = Some r \<Longrightarrow> map fst r = record_keys"
  by (auto simp: validate_fields_def camera_record_def record_keys_def split: option.splits if_splits)

lemma extract_camera_details_keys:
  "extract_camera_details fos session_get u = Some r \<Longrightarrow> map fst r = record_keys"
  by (auto simp: extract_camera_details_def Let_def dest: validate_fields_keys
      split: sum.splits option.splits image_tag.splits)

lemma validator_accepts_cong:
  "raw_lat f = raw_lat g \<Longrightarrow> raw_lon f = raw_lon g \<Longrightarrow> raw_country f = raw_country g
   \<Longrightarrow> raw_city f = raw_city g \<Longrightarrow> validator_accepts fos f = validator_accepts fos g"
  by (simp add: validator_accepts_def)

lemma validate_fields_accepts:
  "validator_accepts fos f \<Longrightarrow> validate_fields fos f \<noteq> None"
  by (auto simp: validate_fields_def validator_accepts_def in_range_float_le split: option.splits)

lemma valid_detail_page_extract:
  assumes "valid_detail_page fos (session_get u)" and "image_src_readable (session_get u)"
  shows "extract_camera_details fos session_get u \<noteq> None"
  using assms
  by (auto simp: valid_detail_page_def image_src_readable_def extract_camera_details_def Let_def
      validate_fields_def validator_accepts_def in_range_float_le
      split: sum.splits option.splits image_tag.splits)

lemma on_completed_camera_data:
  "camera_data (on_completed n s (u, Inr res)) =
     camera_data s @ (case res of None \<Rightarrow> [] | Some r \<Rightarrow> if r \<noteq> [] then [r] else [])"
  by (simp add: on_completed_def Let_def split: option.splits)

lemma foldl_on_completed_camera_data:
  "camera_data (foldl (on_completed n) s (map (\<lambda>url. (url, Inr (f url))) us)) =
     camera_data s @ concat (map (\<lambda>url. case f url of None \<Rightarrow> [] | Some r \<Rightarrow> if r \<noteq> [] then [r] else []) us)"
  by (induction us arbitrary: s) (simp_all add: on_completed_camera_data)

lemma record_keys_provenance:
  "map fst r = record_keys \<Longrightarrow> provenance r = (None, None)"
proof -
  assume k: "map fst r = record_keys"
  have "''origin'' \<notin> set (map fst r)" "''source'' \<notin> set (map fst r)"
    unfolding k by (simp_all add: record_keys_def)
  then show ?thesis
    by (simp add: provenance_def map_of_eq_None_iff)
qed

lemma accepted_nonempty:
  "extract_camera_details fos session_get u = Some r \<Longrightarrow> r \<noteq> []"
  by (drule extract_camera_details_keys) (auto simp: record_keys_def)

lemma length_accepted:
  assumes "\<forall>u\<in>set us. extract_camera_details fos session_get u \<noteq> None"
  shows "length (concat (map (\<lambda>url. case extract_camera_details fos session_get url of
            None \<Rightarrow> [] | Some r \<Rightarrow> if r \<noteq> [] then [r] else []) us)) = length us"
  using assms
  by (induction us) (auto dest: accepted_nonempty)

text \<open>
  C7, as the code has it. A Record of the discovery pipeline has exactly the eight keys
  latitude, longitude, country, city, region, manufacturer, image\_url and page\_url: it
  carries no provenance key, neither \<open>origin\<close> nor the \<open>source\<close> key of the
  expander. A listing that yields three distinct links whose detail pages hold valid
  latitude, longitude, country and city, and whose image element (when there is one) has
  a \<open>src\<close> attribute, gives exactly three Records, whatever the order in which the
  futures complete.
\<close>

theorem discovery_records_untagged:
  "(\<forall>r\<in>set (scraped_records (scrape_cameras fos listing session_get sched num_pages)).
      map fst r = record_keys \<and> provenance r = (None, None))
   \<and> (collect_links listing [1..num_pages] = Inr links \<and> distinct links \<and> length links = 3
        \<and> distinct (sched links) \<and> set (sched links) = set links
        \<and> (\<forall>u\<in>set links. valid_detail_page fos (session_get u)
                             \<and> image_src_readable (session_get u))
      \<longrightarrow> (\<exists>final. scrape_cameras fos listing session_get sched num_pages = Inr final)
        \<and> length (scraped_records (scrape_cameras fos listing session_get sched num_pages)) = 3)"
proof (intro conjI ballI impI)
  fix r
  assume "r \<in> set (scraped_records (scrape_cameras fos listing session_get sched num_pages))"
  then have "\<exists>u. extract_camera_details fos session_get u = Some r"
    by (auto simp: scraped_records_def scrape_cameras_def Let_def initial_state_def
        foldl_on_completed_camera_data split: sum.splits if_splits option.splits)
  then show "map fst r = record_keys"
    by (auto dest: extract_camera_details_keys)
  then show "provenance r = (None, None)"
    by (rule record_keys_provenance)
next
  assume a: "collect_links listing [1..num_pages] = Inr links \<and> distinct links \<and> length links = 3
        \<and> distinct (sched links) \<and> set (sched links) = set links
        \<and> (\<forall>u\<in>set links. valid_detail_page fos (session_get u)
                             \<and> image_src_readable (session_get u))"
  then have rd: "remdups links = links" by simp
  from a have "card (set (sched links)) = card (set links)" by simp
  with a have len: "length (sched links) = 3"
    using distinct_card [of "sched links"] distinct_card [of links] by simp
  have ok: "\<forall>u\<in>set (sched links). extract_camera_details fos session_get u \<noteq> None"
  proof
    fix u
    assume "u \<in> set (sched links)"
    with a have "valid_detail_page fos (session_get u)" "image_src_readable (session_get u)"
      by blast+
    then show "extract_camera_details fos session_get u \<noteq> None"
      by (rule valid_detail_page_extract)
  qed
  from a have ne: "links \<noteq> []" by auto
  from a ne show "\<exists>final. scrape_cameras fos listing session_get sched num_pages = Inr final"
    by (simp add: scrape_cameras_def Let_def rd)
  from a ne show "length (scraped_records (scrape_cameras fos listing session_get sched num_pages)) = 3"
    by (simp add: scrape_cameras_def Let_def rd scraped_records_def initial_state_def
        foldl_on_completed_camera_data length_accepted [OF ok] len)
qed

lemma example_collect: "collect_links example_listing [1..1] = Inr [''http://www.insecam.org/en/view/1/'', ''http://www.insecam.org/en/view/2/'', ''http://www.insecam.org/en/view/3/'']"
  by (simp add: example_listing_def get_camera_links_def scraper_base_url_def)

lemma example_valid: "valid_detail_page example_float (example_detail u)"
  by (simp add: valid_detail_page_def example_detail_def validator_accepts_def get_detail_def
      example_float_def in_range_def)

lemma example_image: "image_src_readable (example_detail u)"
  by (simp add: image_src_readable_def example_detail_def)

lemma map_all_equal:
  "(\<forall>x\<in>set xs. f x = k) \<Longrightarrow> map f xs = replicate (length xs) k"
  by (induction xs) auto

theorem discovery_records_untagged_witness:
  "length (scraped_records (scrape_cameras example_float example_listing example_detail (\<lambda>xs. xs) 1)) = 3
   \<and> map (map fst)
        (scraped_records (scrape_cameras example_float example_listing example_detail (\<lambda>xs. xs) 1))
       = [record_keys, record_keys, record_keys]"
proof -
  let ?links = "[''http://www.insecam.org/en/view/1/'', ''http://www.insecam.org/en/view/2/'',
                 ''http://www.insecam.org/en/view/3/'']"
  let ?recs = "scraped_records
                 (scrape_cameras example_float example_listing example_detail (\<lambda>xs. xs) 1)"
  have h: "collect_links example_listing [1..1] = Inr ?links \<and> distinct ?links \<and> length ?links = 3
        \<and> distinct ((\<lambda>xs. xs) ?links) \<and> set ((\<lambda>xs. xs) ?links) = set ?links
        \<and> (\<forall>u\<in>set ?links. valid_detail_page example_float (example_detail u)
                              \<and> image_src_readable (example_detail u))"
    unfolding example_collect by (simp add: example_valid example_image)
  have len: "length ?recs = 3" and keys: "\<forall>r\<in>set ?recs. map fst r = record_keys"
    using discovery_records_untagged [of example_float example_listing example_detail
        "\<lambda>xs. xs" 1 ?links] h
    by blast+
  from map_all_equal [OF keys] len
  have "map (map fst) ?recs = replicate 3 record_keys" by simp
  with len show ?thesis by (simp add: numeral_3_eq_3)
qed

text \<open>
  The three Records of the example listing: none has an \<open>origin\<close> or a \<open>source\<close>
  key, so none carries \<open>origin = listing\<close>.
\<close>

theorem discovery_origin_counterexample:
  "map provenance (scraped_records (scrape_cameras example_float example_listing example_detail (\<lambda>xs. xs) 1))
     = [(None, None), (None, None), (None, None)]"
  unfolding scrape_cameras_def example_collect
  by (simp add: scraped_records_def
      extract_camera_details_def example_detail_def get_detail_def validate_fields_def
      example_float_def on_completed_def initial_state_def camera_record_def provenance_def
      Let_def)

section \<open>Properties of the result loop\<close>

lemma on_completed_rejected:
  "on_completed n s (u, Inr None) = s\<lparr>processed_count := processed_count s + 1\<rparr>"
  by (simp add: on_completed_def)

lemma on_completed_accepted_quiet:
  assumes "r \<noteq> []" "Suc (processed_count s) mod 50 \<noteq> 0" "Suc (scraped_count s) mod 100 \<noteq> 0"
  shows "on_completed n s (u, Inr (Some r)) =
     s\<lparr>processed_count := Suc (processed_count s), camera_data := camera_data s @ [r],
       scraped_count := Suc (scraped_count s)\<rparr>"
  using assms by (simp add: on_completed_def Let_def)

lemma foldl_accepted_below_50:
  "k < 50 \<Longrightarrow> r \<noteq> [] \<Longrightarrow>
   foldl (on_completed n) initial_state (replicate k (u, Inr (Some r))) =
     \<lparr>processed_count = k, scraped_count = k, camera_data = replicate k r, events = []\<rparr>"
proof (induction k)
  case 0
  then show ?case by (simp add: initial_state_def)
next
  case (Suc k)
  let ?s = "\<lparr>processed_count = k, scraped_count = k, camera_data = replicate k r, events = []\<rparr>"
  from Suc have ih: "foldl (on_completed n) initial_state (replicate k (u, Inr (Some r))) = ?s"
    by simp
  have m: "Suc (processed_count ?s) mod 50 \<noteq> 0" "Suc (scraped_count ?s) mod 100 \<noteq> 0"
    using Suc.prems(1) by simp_all
  have "foldl (on_completed n) initial_state (replicate (Suc k) (u, Inr (Some r))) =
      on_completed n ?s (u, Inr (Some r))"
    unfolding replicate_Suc [of k] replicate_append_same [symmetric]
    by (simp only: foldl_append ih foldl.simps)
  also have "\<dots> = \<lparr>processed_count = Suc k, scraped_count = Suc k,
        camera_data = replicate (Suc k) r, events = []\<rparr>"
    unfolding on_completed_accepted_quiet [OF Suc.prems(2) m]
    by (simp add: replicate_append_same)
  finally show ?case .
qed

text \<open>
  C6. The progress line of \<open>scrape_cameras\<close> sits inside \<open>if result:\<close>. When 49
  accepted results are followed by a rejected one, the fiftieth completion leaves the
  event list empty: no progress event is emitted although \<open>processed_count\<close> is 50.
\<close>

theorem progress_skipped_at_50th_completion:
  "foldl (on_completed 50) initial_state
     (replicate 49 (''http://www.insecam.org/en/view/1/'', Inr (Some [(''latitude'', PNum (Finite 48.85))]))
      @ [(''http://www.insecam.org/en/view/2/'', Inr None)])
   = \<lparr>processed_count = 50, scraped_count = 49,
      camera_data = replicate 49 [(''latitude'', PNum (Finite 48.85))], events = []\<rparr>"
  by (simp add: foldl_accepted_below_50 on_completed_rejected)

section \<open>Properties of the resolver and the probe\<close>

text \<open>
  C2. Provider A raises a transport exception for 203.0.113.7 and provider B would answer
  with a success-flagged object. The resolver returns \<open>None\<close> after the single request
  to provider A: the exception leaves the \<open>try\<close> block that holds both providers, so
  provider B is never queried.
\<close>

theorem fallback_skipped_when_provider_a_raises:
  "get_ip_geolocation example_net_a_down (Some ''203.0.113.7'')
     = (None, [Get ''https://ipapi.co/203.0.113.7/json/''])
   \<and> example_net_a_down ''http://ip-api.com/json/203.0.113.7'' = Inr example_geo_b
   \<and> provider_b_block example_geo_b
     = Inr (Some [(''lat'', PNum (Finite 48.85)), (''lon'', PNum (Finite 2.35)),
                  (''country'', PStr ''France''), (''city'', PStr ''Paris''),
                  (''region'', PStr ''Ile-de-France'')])"
  by (simp add: get_ip_geolocation_def example_net_a_down_def provider_a_url_def
      provider_b_url_def str_opt_def provider_b_block_def example_geo_b_def dict_get_def)

lemma str_nat_80: "str_nat 80 = ''80''"
  by (simp add: str_nat.simps digit_char_def)

lemma example_probe_record:
  "test_camera_url example_urlparse example_net_null_geo ''http://203.0.113.9:80/cam_2.cgi''
     = Some [(''latitude'', PNone), (''longitude'', PNone), (''country'', PNone),
             (''city'', PNone), (''region'', PNone), (''manufacturer'', PStr ''WebcamXP''),
             (''image_url'', PStr ''http://203.0.113.9:80/cam_2.cgi''),
             (''page_url'', PStr ''http://203.0.113.9:80''),
             (''source'', PStr ''smart_expansion''), (''ip_address'', PStr ''203.0.113.9'')]"
  by (simp add: test_camera_url_def example_net_null_geo_def example_urlparse_def
      get_ip_geolocation_def provider_a_url_def provider_a_block_def str_opt_def dict_get_def
      lower_def lower_char_def detect_manufacturer_def port_or_80_def str_nat_80
      pyval_of_host_def)

lemma example_extract_record:
  "extract_camera_details example_float example_detail ''http://www.insecam.org/en/view/1/''
     = Some [(''latitude'', PNum (Finite 48.85)), (''longitude'', PNum (Finite 2.35)),
             (''country'', PStr ''France''), (''city'', PStr ''Paris''),
             (''region'', PStr ''N/A''), (''manufacturer'', PStr ''N/A''),
             (''image_url'', PStr ''http://203.0.113.5:80/cam_1.cgi''),
             (''page_url'', PStr ''http://www.insecam.org/en/view/1/'')]"
  by (simp add: extract_camera_details_def example_detail_def get_detail_def
      validate_fields_def example_float_def camera_record_def Let_def)

lemma validate_fields_accepted:
  "validate_fields fos f = Some r \<Longrightarrow> record_accepted r"
  by (auto simp: validate_fields_def camera_record_def record_accepted_def in_range_float_le
      split: option.splits if_splits)

lemma extract_camera_details_accepted:
  "extract_camera_details fos session_get u = Some r \<Longrightarrow> record_accepted r"
  by (auto simp: extract_camera_details_def Let_def dest: validate_fields_accepted
      split: sum.splits option.splits image_tag.splits)

lemma provider_a_block_nonempty: "provider_a_block response = Inr (Some geo) \<Longrightarrow> geo \<noteq> []"
  by (auto simp: provider_a_block_def split: if_splits json_body.splits)

lemma provider_b_block_nonempty: "provider_b_block response = Inr (Some geo) \<Longrightarrow> geo \<noteq> []"
  by (auto simp: provider_b_block_def split: if_splits json_body.splits)

lemma get_ip_geolocation_nonempty:
  "fst (get_ip_geolocation net ip) = Some geo \<Longrightarrow> geo \<noteq> []"
  by (auto simp: get_ip_geolocation_def
      dest: provider_a_block_nonempty provider_b_block_nonempty
      split: sum.splits option.splits)

lemma test_camera_url_iff:
  "test_camera_url up net url = Some r \<longleftrightarrow>
     (\<exists>response parsed geo p. net url = Inr response \<and> probe_accepts response
        \<and> up url = Inr parsed
        \<and> fst (get_ip_geolocation net (hostname parsed)) = Some geo
        \<and> port_or_80 (port parsed) = Inr p
        \<and> r = expansion_record url (hostname parsed) p geo)"
proof
  assume "test_camera_url up net url = Some r"
  then show "\<exists>response parsed geo p. net url = Inr response \<and> probe_accepts response
        \<and> up url = Inr parsed
        \<and> fst (get_ip_geolocation net (hostname parsed)) = Some geo
        \<and> port_or_80 (port parsed) = Inr p
        \<and> r = expansion_record url (hostname parsed) p geo"
    by (auto simp: test_camera_url_def probe_accepts_def expansion_record_def Let_def
        split: sum.splits option.splits if_splits)
next
  assume "\<exists>response parsed geo p. net url = Inr response \<and> probe_accepts response
        \<and> up url = Inr parsed
        \<and> fst (get_ip_geolocation net (hostname parsed)) = Some geo
        \<and> port_or_80 (port parsed) = Inr p
        \<and> r = expansion_record url (hostname parsed) p geo"
  then obtain response parsed geo p where
    h: "net url = Inr response" "probe_accepts response" "up url = Inr parsed"
       "fst (get_ip_geolocation net (hostname parsed)) = Some geo"
       "port_or_80 (port parsed) = Inr p"
       "r = expansion_record url (hostname parsed) p geo"
    by blast
  from h(4) have "geo \<noteq> []" by (rule get_ip_geolocation_nonempty)
  with h show "test_camera_url up net url = Some r"
    by (simp add: test_camera_url_def probe_accepts_def expansion_record_def Let_def)
qed

text \<open>
  C1, as the code has it. A Record of the discovery pipeline is returned only after the
  validation accepted it. A Record of the expansion probe never passes through the
  Validator: the probe returns a Record exactly when the response is accepted (status
  200 and a media content type), the URL parses with a usable port and the resolver
  returns an answer; the Record is then the dictionary built from that answer, with no
  check on latitude, longitude, country or city.
\<close>

theorem records_validated_in_discovery_only:
  "(extract_camera_details fos session_get u = Some r \<longrightarrow> record_accepted r)
   \<and> (test_camera_url up net url = Some r' \<longleftrightarrow>
        (\<exists>response parsed geo p. net url = Inr response \<and> probe_accepts response
           \<and> up url = Inr parsed
           \<and> fst (get_ip_geolocation net (hostname parsed)) = Some geo
           \<and> port_or_80 (port parsed) = Inr p
           \<and> r' = expansion_record url (hostname parsed) p geo))"
  using extract_camera_details_accepted [of fos session_get u r]
    test_camera_url_iff [of up net url r']
  by blast

lemma example_probe_facts:
  "example_net_null_geo ''http://203.0.113.9:80/cam_2.cgi''
     = Inr \<lparr>status_code = 200, content_type = Some ''image/jpeg'', json = BadJson\<rparr>"
  "probe_accepts \<lparr>status_code = 200, content_type = Some ''image/jpeg'', json = BadJson\<rparr>"
  "example_urlparse ''http://203.0.113.9:80/cam_2.cgi''
     = Inr \<lparr>hostname = Some ''203.0.113.9'', port = Port 80, path = ''/cam_2.cgi''\<rparr>"
  "fst (get_ip_geolocation example_net_null_geo
          (hostname \<lparr>hostname = Some ''203.0.113.9'', port = Port 80, path = ''/cam_2.cgi''\<rparr>))
     = Some [(''lat'', PNone), (''lon'', PNone), (''country'', PNone), (''city'', PNone),
             (''region'', PNone)]"
  "port_or_80 (port \<lparr>hostname = Some ''203.0.113.9'', port = Port 80, path = ''/cam_2.cgi''\<rparr>)
     = Inr 80"
  by (simp_all add: example_net_null_geo_def probe_accepts_def lower_def lower_char_def
      example_urlparse_def get_ip_geolocation_def provider_a_url_def provider_a_block_def
      str_opt_def dict_get_def port_or_80_def)

theorem records_validated_in_discovery_only_witness:
  "record_accepted
     [(''latitude'', PNum (Finite 48.85)), (''longitude'', PNum (Finite 2.35)),
      (''country'', PStr ''France''), (''city'', PStr ''Paris''),
      (''region'', PStr ''N/A''), (''manufacturer'', PStr ''N/A''),
      (''image_url'', PStr ''http://203.0.113.5:80/cam_1.cgi''),
      (''page_url'', PStr ''http://www.insecam.org/en/view/1/'')]
   \<and> test_camera_url example_urlparse example_net_null_geo ''http://203.0.113.9:80/cam_2.cgi''
       = Some (expansion_record ''http://203.0.113.9:80/cam_2.cgi'' (Some ''203.0.113.9'') 80
                [(''lat'', PNone), (''lon'', PNone), (''country'', PNone), (''city'', PNone),
                 (''region'', PNone)])"
proof -
  let ?url = "''http://203.0.113.9:80/cam_2.cgi''"
  let ?parsed = "\<lparr>hostname = Some ''203.0.113.9'', port = Port 80, path = ''/cam_2.cgi''\<rparr>"
  let ?geo = "[(''lat'', PNone), (''lon'', PNone), (''country'', PNone), (''city'', PNone),
               (''region'', PNone)]"
  let ?rec = "expansion_record ?url (Some ''203.0.113.9'') 80 ?geo"
  note t = records_validated_in_discovery_only [of example_float example_detail
      "''http://www.insecam.org/en/view/1/''" _ example_urlparse example_net_null_geo ?url ?rec]
  from t [THEN conjunct1, rule_format, OF example_extract_record]
  have a: "record_accepted
     [(''latitude'', PNum (Finite 48.85)), (''longitude'', PNum (Finite 2.35)),
      (''country'', PStr ''France''), (''city'', PStr ''Paris''),
      (''region'', PStr ''N/A''), (''manufacturer'', PStr ''N/A''),
      (''image_url'', PStr ''http://203.0.113.5:80/cam_1.cgi''),
      (''page_url'', PStr ''http://www.insecam.org/en/view/1/'')]" .
  have "\<exists>response parsed geo p. example_net_null_geo ?url = Inr response
           \<and> probe_accepts response \<and> example_urlparse ?url = Inr parsed
           \<and> fst (get_ip_geolocation example_net_null_geo (hostname parsed)) = Some geo
           \<and> port_or_80 (port parsed) = Inr p
           \<and> ?rec = expansion_record ?url (hostname parsed) p geo"
    using example_probe_facts
    by (intro exI [of _ "\<lparr>status_code = 200, content_type = Some ''image/jpeg'', json = BadJson\<rparr>"]
        exI [of _ ?parsed] exI [of _ ?geo] exI [of _ "80::nat"]) simp
  with t [THEN conjunct2] have b: "test_camera_url example_urlparse example_net_null_geo ?url
      = Some ?rec"
    by (rule iffD2)
  from a b show ?thesis by (rule conjI)
qed

text \<open>
  The probe accepts the camera at 203.0.113.9 and the resolver's answer has no location:
  the Record is returned with \<open>None\<close> for latitude, longitude, country and city, which
  the Validator's acceptance condition does not admit.
\<close>

theorem expansion_record_counterexample:
  "test_camera_url example_urlparse example_net_null_geo ''http://203.0.113.9:80/cam_2.cgi''
     = Some [(''latitude'', PNone), (''longitude'', PNone), (''country'', PNone),
             (''city'', PNone), (''region'', PNone), (''manufacturer'', PStr ''WebcamXP''),
             (''image_url'', PStr ''http://203.0.113.9:80/cam_2.cgi''),
             (''page_url'', PStr ''http://203.0.113.9:80''),
             (''source'', PStr ''smart_expansion''), (''ip_address'', PStr ''203.0.113.9'')]
   \<and> \<not> record_accepted
        [(''latitude'', PNone), (''longitude'', PNone), (''country'', PNone),
         (''city'', PNone), (''region'', PNone), (''manufacturer'', PStr ''WebcamXP''),
         (''image_url'', PStr ''http://203.0.113.9:80/cam_2.cgi''),
         (''page_url'', PStr ''http://203.0.113.9:80''),
         (''source'', PStr ''smart_expansion''), (''ip_address'', PStr ''203.0.113.9'')]"
  by (simp add: example_probe_record record_accepted_def)

section \<open>Properties of the candidate generator\<close>

lemma digit_char_val: "is_digit c \<Longrightarrow> digit_char (digit_val c) = c"
  by (auto simp: is_digit_def digit_char_def digit_val_def)

lemma digit_val_lt: "is_digit c \<Longrightarrow> digit_val c < 10"
  by (auto simp: is_digit_def digit_val_def)

lemma digit_val_zero: "is_digit c \<Longrightarrow> digit_val c = 0 \<longleftrightarrow> c = CHR ''0''"
  by (auto simp: is_digit_def digit_val_def)

lemma nat_of_digits_snoc: "nat_of_digits (s @ [c]) = 10 * nat_of_digits s + digit_val c"
  by (simp add: nat_of_digits_def)

lemma str_nat_step: "d < 10 \<Longrightarrow> 0 < m \<Longrightarrow> str_nat (10 * m + d) = str_nat m @ [digit_char d]"
  by (subst str_nat.simps) simp

lemma str_nat_digit: "d < 10 \<Longrightarrow> str_nat d = [digit_char d]"
  by (subst str_nat.simps) simp

lemma nat_of_digits_pos:
  "s \<noteq> [] \<Longrightarrow> list_all is_digit s \<Longrightarrow> hd s \<noteq> CHR ''0'' \<Longrightarrow> 0 < nat_of_digits s"
proof (induction s rule: rev_induct)
  case Nil
  then show ?case by simp
next
  case (snoc c s)
  show ?case
  proof (cases "s = []")
    case True
    with snoc.prems show ?thesis
      using digit_val_zero [of c] by (simp add: nat_of_digits_def)
  next
    case False
    with snoc have "0 < nat_of_digits s" by simp
    then show ?thesis by (simp add: nat_of_digits_snoc)
  qed
qed

lemma str_nat_of_digits:
  "s \<noteq> [] \<Longrightarrow> list_all is_digit s \<Longrightarrow> s = ''0'' \<or> hd s \<noteq> CHR ''0''
   \<Longrightarrow> str_nat (nat_of_digits s) = s"
proof (induction s rule: rev_induct)
  case Nil
  then show ?case by simp
next
  case (snoc c s)
  show ?case
  proof (cases "s = []")
    case True
    with snoc.prems show ?thesis
      by (simp add: nat_of_digits_def str_nat_digit digit_val_lt digit_char_val)
  next
    case False
    with snoc.prems have h: "hd s \<noteq> CHR ''0''" "list_all is_digit s" "is_digit c"
      by auto
    with False have pos: "0 < nat_of_digits s" by (simp add: nat_of_digits_pos)
    from False h snoc.IH have "str_nat (nat_of_digits s) = s" by simp
    with pos h show ?thesis
      by (simp add: nat_of_digits_snoc str_nat_step digit_val_lt digit_char_val)
  qed
qed

lemma parse_octet_canonical: "parse_octet s = Some n \<Longrightarrow> str_nat n = s \<and> n < 256"
  by (auto simp: parse_octet_def str_nat_of_digits split: if_splits)

lemma split_char_nonempty: "split_char sep s \<noteq> []"
  by (induction s) auto

lemma split_char_join:
  "concat (map (\<lambda>w. w @ [sep]) (butlast (split_char sep s))) @ last (split_char sep s) = s"
proof (induction s)
  case Nil
  then show ?case by simp
next
  case (Cons c cs)
  obtain w ws where r: "split_char sep cs = w # ws"
    using split_char_nonempty [of sep cs] by (cases "split_char sep cs") auto
  with Cons show ?case by (cases ws) auto
qed

lemma split_char_four:
  "split_char sep s = [a, b, c, d] \<Longrightarrow> s = a @ [sep] @ b @ [sep] @ c @ [sep] @ d"
  using split_char_join [of sep s] by simp

lemma byte_mod: "c < 256 \<Longrightarrow> (y * 256 + c) mod 256 = (c::nat)"
  by simp

lemma byte_div: "c < 256 \<Longrightarrow> (y * 256 + c) div 256 = (y::nat)"
  by simp

lemma octets_unpack:
  fixes a b c d :: nat
  assumes "a < 256" "b < 256" "c < 256" "d < 256"
  shows "(((a * 256 + b) * 256 + c) * 256 + d) div 16777216 mod 256 = a"
    and "(((a * 256 + b) * 256 + c) * 256 + d) div 65536 mod 256 = b"
    and "(((a * 256 + b) * 256 + c) * 256 + d) div 256 mod 256 = c"
    and "(((a * 256 + b) * 256 + c) * 256 + d) mod 256 = d"
    and "((a * 256 + b) * 256 + c) * 256 + d < 4294967296"
proof -
  let ?x = "((a * 256 + b) * 256 + c) * 256 + d"
  have d1: "?x div 256 = (a * 256 + b) * 256 + c"
    using assms(4) by (rule byte_div)
  have "?x div 65536 = ?x div 256 div 256"
    by (simp only: div_mult2_eq [symmetric]) simp
  then have d2: "?x div 65536 = a * 256 + b"
    unfolding d1 byte_div [OF assms(3)] .
  have "?x div 16777216 = ?x div 65536 div 256"
    by (simp only: div_mult2_eq [symmetric]) simp
  then have d3: "?x div 16777216 = a"
    unfolding d2 using assms(2) by simp
  show "?x div 16777216 mod 256 = a" unfolding d3 using assms(1) by simp
  show "?x div 65536 mod 256 = b" unfolding d2 using assms(2) by (rule byte_mod)
  show "?x div 256 mod 256 = c" unfolding d1 using assms(3) by (rule byte_mod)
  show "?x mod 256 = d" using assms(4) by (rule byte_mod)
  show "?x < 4294967296" using assms by simp
qed

lemma IPv4Address_canonical:
  assumes "IPv4Address s = Some a"
  shows "ip_str a = s" and "a < 4294967296"
proof -
  from assms obtain o1 o2 o3 o4 where
    m: "map parse_octet (split_char CHR ''.'' s) = [Some o1, Some o2, Some o3, Some o4]"
    and a: "a = ((o1 * 256 + o2) * 256 + o3) * 256 + o4"
    by (auto simp: IPv4Address_def split: list.splits option.splits)
  from m obtain s1 s2 s3 s4 where
    sp: "split_char CHR ''.'' s = [s1, s2, s3, s4]"
    and p: "parse_octet s1 = Some o1" "parse_octet s2 = Some o2"
           "parse_octet s3 = Some o3" "parse_octet s4 = Some o4"
    by (auto simp: map_eq_Cons_conv)
  from p have c: "str_nat o1 = s1" "str_nat o2 = s2" "str_nat o3 = s3" "str_nat o4 = s4"
    and b: "o1 < 256" "o2 < 256" "o3 < 256" "o4 < 256"
    by (auto dest: parse_octet_canonical)
  from split_char_four [OF sp] show "ip_str a = s"
    unfolding ip_str_def a octets_unpack [OF b] c by simp
  from octets_unpack(5) [OF b] show "a < 4294967296"
    unfolding a .
qed


lemma randint_1_254: "1 \<le> randint 1 254 raw \<and> randint 1 254 raw \<le> 254"
  by (simp add: randint_def)

lemma network_address_add:
  assumes "r \<le> 254"
  shows "(network_address A + r) div 256 = A div 256"
    and "(network_address A + r) mod 256 = r"
proof -
  have n: "network_address A = A div 256 * 256"
    by (simp add: network_address_def minus_mod_eq_div_mult)
  from assms have r: "r < 256" by simp
  show "(network_address A + r) div 256 = A div 256"
    unfolding n using r by (rule byte_div)
  show "(network_address A + r) mod 256 = r"
    unfolding n using r by (rule byte_mod)
qed

lemma ip_variations_mem:
  assumes "u \<in> set (fst (ip_variations n g base_ip (network_address A) base_port base_path))"
  shows "\<exists>a p. u = mk_url (ip_str a) p base_path \<and> ip_str a \<noteq> base_ip
           \<and> a div 256 = A div 256 \<and> 1 \<le> a mod 256 \<and> a mod 256 \<le> 254
           \<and> (p = base_port \<or> base_port = 80 \<and> p \<in> {8080, 8081, 8888})"
  using assms
proof (induction n arbitrary: g)
  case 0
  then show ?case by simp
next
  case (Suc n)
  let ?r = "randint 1 254 (g 0)"
  let ?a = "network_address A + ?r"
  have r: "1 \<le> ?r" "?r \<le> 254" using randint_1_254 [of "g 0"] by simp_all
  have a: "?a div 256 = A div 256" "?a mod 256 = ?r"
    using network_address_add [OF r(2), of A] by simp_all
  show ?case
  proof (cases "ip_add (network_address A) ?r")
    case None
    with Suc.prems show ?thesis by simp
  next
    case (Some a')
    then have a': "a' = ?a" by (simp add: ip_add_def split: if_splits)
    from Suc.prems Some
    consider (new) "ip_str a' \<noteq> base_ip"
        "u = mk_url (ip_str a') base_port base_path
         \<or> base_port = 80 \<and> u \<in> (\<lambda>p. mk_url (ip_str a') p base_path) ` {8080, 8081, 8888}"
      | (rest) "u \<in> set (fst (ip_variations n (rng_tail g) base_ip (network_address A) base_port base_path))"
      by (auto simp: Let_def split: if_splits)
    then show ?thesis
    proof cases
      case new
      from new(2) obtain p where p: "u = mk_url (ip_str a') p base_path"
          "p = base_port \<or> base_port = 80 \<and> p \<in> {8080, 8081, 8888}"
        by auto
      have "a' div 256 = A div 256" "1 \<le> a' mod 256" "a' mod 256 \<le> 254"
        unfolding a' a using r by simp_all
      with p new(1) show ?thesis by blast
    next
      case rest
      then show ?thesis by (rule Suc.IH)
    qed
  qed
qed

text \<open>
  C8. Every URL appended by the address loop is built on an address of the seed's /24
  block whose last octet is between 1 and 254: the network address (.0) and the
  broadcast address (.255) are never used as hosts.
\<close>

theorem address_candidate_final_octet:
  "u \<in> set (fst (ip_variations n g base_ip (network_address A) base_port base_path)) \<Longrightarrow>
   \<exists>a p. u = mk_url (ip_str a) p base_path \<and> a div 256 = A div 256
         \<and> 1 \<le> a mod 256 \<and> a mod 256 \<le> 254"
  by (drule ip_variations_mem) blast

lemma example_ip_round:
  "fst (ip_variations (Suc 0) example_rng ''203.0.113.5'' (network_address 3405803781) 80 ''/cam_1.cgi'')
     = [''http://203.0.113.4:80/cam_1.cgi'', ''http://203.0.113.4:8080/cam_1.cgi'',
        ''http://203.0.113.4:8081/cam_1.cgi'', ''http://203.0.113.4:8888/cam_1.cgi'']"
  by (simp add: example_rng_def randint_def network_address_def ip_add_def ip_str_def
      mk_url_def str_nat.simps digit_char_def)


theorem address_candidate_final_octet_witness:
  "\<exists>a p. ''http://203.0.113.4:8080/cam_1.cgi'' = mk_url (ip_str a) p ''/cam_1.cgi''
         \<and> a div 256 = 3405803781 div 256 \<and> 1 \<le> a mod 256 \<and> a mod 256 \<le> 254"
proof -
  have m: "''http://203.0.113.4:8080/cam_1.cgi''
      \<in> set (fst (ip_variations (Suc 0) example_rng ''203.0.113.5''
                  (network_address 3405803781) 80 ''/cam_1.cgi''))"
    unfolding example_ip_round by simp
  from address_candidate_final_octet [OF m] show ?thesis .
qed

lemma generate_similar_urls_ipv4:
  assumes "dict_get base_camera ''image_url'' (PStr []) = PStr base_url"
    and "urlparse base_url = Inr parsed" and "hostname parsed = Some base_ip"
    and "IPv4Address base_ip = Some A"
    and "u \<in> set (fst (generate_similar_urls urlparse g base_camera variations))"
  shows "u \<in> set (fst (ip_variations (nat variations) g base_ip (network_address A)
                        (case port_or_80 (port parsed) of Inr p \<Rightarrow> p | Inl e \<Rightarrow> 0) (path parsed)))
       \<or> (\<exists>p path_var g'. u = mk_url base_ip p path_var \<and> port_or_80 (port parsed) = Inr p
             \<and> path_var \<in> set (take 10 (fst (generate_path_variations g' (path parsed)))))"
  using assms
  by (auto simp: generate_similar_urls_def Let_def split: if_splits sum.splits)

text \<open>
  C3, as the code has it. For a seed whose media URL has the numeric IPv4 host \<open>A\<close>,
  every returned candidate is either an address-mutation candidate, whose host lies in
  the /24 block of \<open>A\<close> and differs from \<open>A\<close>, or a path-mutation candidate, which is
  on the host \<open>A\<close> itself with the seed's port and one of the first ten path variations.
\<close>

theorem candidates_in_block_or_on_seed_host:
  assumes "dict_get base_camera ''image_url'' (PStr []) = PStr base_url"
    and "urlparse base_url = Inr parsed" and "hostname parsed = Some base_ip"
    and "IPv4Address base_ip = Some A"
    and "u \<in> set (fst (generate_similar_urls urlparse g base_camera variations))"
  shows "(\<exists>a p. u = mk_url (ip_str a) p (path parsed) \<and> a div 256 = A div 256 \<and> a \<noteq> A)
       \<or> (\<exists>p path_var g'. u = mk_url (ip_str A) p path_var \<and> port_or_80 (port parsed) = Inr p
             \<and> path_var \<in> set (take 10 (fst (generate_path_variations g' (path parsed)))))"
proof -
  from assms(4) have c: "ip_str A = base_ip" by (rule IPv4Address_canonical)
  from generate_similar_urls_ipv4 [OF assms] show ?thesis
  proof
    assume "u \<in> set (fst (ip_variations (nat variations) g base_ip (network_address A)
                        (case port_or_80 (port parsed) of Inr p \<Rightarrow> p | Inl e \<Rightarrow> 0) (path parsed)))"
    from ip_variations_mem [OF this] obtain a p where
      "u = mk_url (ip_str a) p (path parsed)" "ip_str a \<noteq> base_ip" "a div 256 = A div 256"
      by blast
    with c show ?thesis by auto
  next
    assume "\<exists>p path_var g'. u = mk_url base_ip p path_var \<and> port_or_80 (port parsed) = Inr p
             \<and> path_var \<in> set (take 10 (fst (generate_path_variations g' (path parsed))))"
    with c show ?thesis by simp
  qed
qed


lemma example_path_variations:
  "fst (generate_path_variations g ''/cam_1.cgi'')
     = [''/cam_2.cgi'', ''/cam_3.cgi'', ''/cam_4.cgi'', ''/cam_5.cgi'']"
  by (simp add: generate_path_variations_def str_replace.simps str_nat.simps digit_char_def
      upt_rec)

lemma example_seed_ip: "IPv4Address ''203.0.113.5'' = Some 3405803781"
  by (simp add: IPv4Address_def parse_octet_def is_digit_def nat_of_digits_def digit_val_def)

lemma example_seed_candidates:
  "set (fst (generate_similar_urls example_urlparse example_rng example_seed 1))
     = {''http://203.0.113.4:80/cam_1.cgi'', ''http://203.0.113.4:8080/cam_1.cgi'',
        ''http://203.0.113.4:8081/cam_1.cgi'', ''http://203.0.113.4:8888/cam_1.cgi'',
        ''http://203.0.113.5:80/cam_2.cgi'', ''http://203.0.113.5:80/cam_3.cgi'',
        ''http://203.0.113.5:80/cam_4.cgi'', ''http://203.0.113.5:80/cam_5.cgi''}"
  by (simp add: generate_similar_urls_def example_seed_def dict_get_def example_urlparse_def
      port_or_80_def example_seed_ip example_path_variations Let_def
      example_rng_def randint_def network_address_def ip_add_def ip_str_def
      mk_url_def str_nat.simps digit_char_def insert_commute)

theorem candidates_in_block_or_on_seed_host_witness:
  "(\<exists>a p. ''http://203.0.113.4:8080/cam_1.cgi'' = mk_url (ip_str a) p ''/cam_1.cgi''
          \<and> a div 256 = 3405803781 div 256 \<and> a \<noteq> 3405803781)
   \<or> (\<exists>p path_var g'. ''http://203.0.113.4:8080/cam_1.cgi'' = mk_url (ip_str 3405803781) p path_var
          \<and> port_or_80 (Port 80) = Inr p
          \<and> path_var \<in> set (take 10 (fst (generate_path_variations g' ''/cam_1.cgi''))))"
proof -
  have 1: "dict_get example_seed ''image_url'' (PStr [])
      = PStr ''http://203.0.113.5:80/cam_1.cgi?Resolution=640x480''"
    by (simp add: example_seed_def dict_get_def)
  have 2: "example_urlparse ''http://203.0.113.5:80/cam_1.cgi?Resolution=640x480''
      = Inr \<lparr>hostname = Some ''203.0.113.5'', port = Port 80, path = ''/cam_1.cgi''\<rparr>"
    by (simp add: example_urlparse_def)
  have 3: "hostname \<lparr>hostname = Some ''203.0.113.5'', port = Port 80, path = ''/cam_1.cgi''\<rparr>
      = Some ''203.0.113.5''"
    by simp
  have 5: "''http://203.0.113.4:8080/cam_1.cgi''
      \<in> set (fst (generate_similar_urls example_urlparse example_rng example_seed 1))"
    unfolding example_seed_candidates by simp
  from candidates_in_block_or_on_seed_host [OF 1 2 3 example_seed_ip 5]
  show ?thesis by simp
qed

text \<open>
  The seed at 203.0.113.5 with path \<open>/cam_1.cgi\<close>: the candidate with path
  \<open>/cam_2.cgi\<close> is returned and its host is the seed's own address.
\<close>

theorem candidate_on_seed_host_counterexample:
  "''http://203.0.113.5:80/cam_2.cgi''
     \<in> set (fst (generate_similar_urls example_urlparse example_rng example_seed 1))
   \<and> candidate_host ''http://203.0.113.5:80/cam_2.cgi'' = ''203.0.113.5''
   \<and> example_urlparse ''http://203.0.113.5:80/cam_1.cgi?Resolution=640x480''
       = Inr \<lparr>hostname = Some ''203.0.113.5'', port = Port 80, path = ''/cam_1.cgi''\<rparr>
   \<and> IPv4Address ''203.0.113.5'' = Some 3405803781"
  unfolding example_seed_candidates
  by (simp add: candidate_host_def example_urlparse_def example_seed_ip)

lemma generate_path_variations_empty: "generate_path_variations g [] = ([], g)"
  by (simp add: generate_path_variations_def)

text \<open>
  C5, as the code has it. A seed whose media URL is missing, empty, no string, rejected
  by \<open>urlparse\<close>, without a host, or with a port that is no number in range gives the
  empty list. A seed whose host is not a numeric IPv4 address and whose port is usable
  (absent, or a number in range; 80 stands for an absent port and for port 0) gives no
  address-mutation candidate, and the result is exactly the distinct path-mutation
  candidates on the seed's own host and port.
\<close>

theorem non_ipv4_seed_path_candidates_only:
  "(dict_get base_camera ''image_url'' (PStr []) = PStr base_url
      \<and> (base_url = []
           \<or> (case urlparse base_url of
                 Inl e \<Rightarrow> True
               | Inr parsed \<Rightarrow> hostname parsed = None \<or> hostname parsed = Some []
                                \<or> port parsed = PortInvalid))
    \<longrightarrow> fst (generate_similar_urls urlparse g base_camera variations) = [])
   \<and> ((\<forall>s. dict_get base_camera ''image_url'' (PStr []) \<noteq> PStr s)
    \<longrightarrow> fst (generate_similar_urls urlparse g base_camera variations) = [])
   \<and> (dict_get base_camera ''image_url'' (PStr []) = PStr base_url \<and> base_url \<noteq> []
        \<and> urlparse base_url = Inr parsed \<and> hostname parsed = Some base_ip \<and> base_ip \<noteq> []
        \<and> IPv4Address base_ip = None \<and> port_or_80 (port parsed) = Inr base_port
    \<longrightarrow> fst (generate_similar_urls urlparse g base_camera variations)
          = remdups (map (mk_url base_ip base_port)
                      (take 10 (fst (generate_path_variations g (path parsed))))))"
proof (intro conjI impI)
  assume "dict_get base_camera ''image_url'' (PStr []) = PStr base_url
      \<and> (base_url = []
           \<or> (case urlparse base_url of
                 Inl e \<Rightarrow> True
               | Inr parsed \<Rightarrow> hostname parsed = None \<or> hostname parsed = Some []
                                \<or> port parsed = PortInvalid))"
  then show "fst (generate_similar_urls urlparse g base_camera variations) = []"
    by (auto simp: generate_similar_urls_def port_or_80_def split: sum.splits option.splits)
next
  assume "\<forall>s. dict_get base_camera ''image_url'' (PStr []) \<noteq> PStr s"
  then show "fst (generate_similar_urls urlparse g base_camera variations) = []"
    by (cases "dict_get base_camera ''image_url'' (PStr [])")
      (simp_all add: generate_similar_urls_def)
next
  assume "dict_get base_camera ''image_url'' (PStr []) = PStr base_url \<and> base_url \<noteq> []
        \<and> urlparse base_url = Inr parsed \<and> hostname parsed = Some base_ip \<and> base_ip \<noteq> []
        \<and> IPv4Address base_ip = None \<and> port_or_80 (port parsed) = Inr base_port"
  then show "fst (generate_similar_urls urlparse g base_camera variations)
          = remdups (map (mk_url base_ip base_port)
                      (take 10 (fst (generate_path_variations g (path parsed)))))"
    by (auto simp: generate_similar_urls_def Let_def generate_path_variations_empty)
qed

lemma example_named_ip: "IPv4Address ''example.com'' = None"
  by (simp add: IPv4Address_def parse_octet_def is_digit_def)

lemma example_named_candidates:
  "remdups (map (mk_url ''example.com'' 80)
      (take 10 (fst (generate_path_variations example_rng ''/cam_1.cgi''))))
   = [''http://example.com:80/cam_2.cgi'', ''http://example.com:80/cam_3.cgi'',
      ''http://example.com:80/cam_4.cgi'', ''http://example.com:80/cam_5.cgi'']"
  by (simp add: example_path_variations mk_url_def str_nat_80)

theorem non_ipv4_seed_path_candidates_only_witness:
  "fst (generate_similar_urls example_urlparse example_rng [] 20) = []
   \<and> fst (generate_similar_urls example_urlparse example_rng example_bad_port_seed 20) = []
   \<and> fst (generate_similar_urls example_urlparse example_rng [(''image_url'', PNone)] 20) = []
   \<and> fst (generate_similar_urls example_urlparse example_rng example_named_seed 20)
     = [''http://example.com:80/cam_2.cgi'', ''http://example.com:80/cam_3.cgi'',
        ''http://example.com:80/cam_4.cgi'', ''http://example.com:80/cam_5.cgi'']"
proof -
  have a: "dict_get [] ''image_url'' (PStr []) = PStr []
      \<and> ([] = []
           \<or> (case example_urlparse [] of
                 Inl e \<Rightarrow> True
               | Inr parsed \<Rightarrow> hostname parsed = None \<or> hostname parsed = Some []
                                \<or> port parsed = PortInvalid))"
    by (simp add: dict_get_def)
  have p: "dict_get example_bad_port_seed ''image_url'' (PStr [])
        = PStr ''http://example.com:99999/cam_1.cgi''
      \<and> (''http://example.com:99999/cam_1.cgi'' = []
           \<or> (case example_urlparse ''http://example.com:99999/cam_1.cgi'' of
                 Inl e \<Rightarrow> True
               | Inr parsed \<Rightarrow> hostname parsed = None \<or> hostname parsed = Some []
                                \<or> port parsed = PortInvalid))"
    by (simp add: dict_get_def example_bad_port_seed_def example_urlparse_def)
  have n: "\<forall>s. dict_get [(''image_url'', PNone)] ''image_url'' (PStr []) \<noteq> PStr s"
    by (simp add: dict_get_def)
  have b: "dict_get example_named_seed ''image_url'' (PStr []) = PStr ''http://example.com/cam_1.cgi''
        \<and> ''http://example.com/cam_1.cgi'' \<noteq> []
        \<and> example_urlparse ''http://example.com/cam_1.cgi''
            = Inr \<lparr>hostname = Some ''example.com'', port = PortAbsent, path = ''/cam_1.cgi''\<rparr>
        \<and> hostname \<lparr>hostname = Some ''example.com'', port = PortAbsent, path = ''/cam_1.cgi''\<rparr>
            = Some ''example.com''
        \<and> ''example.com'' \<noteq> []
        \<and> IPv4Address ''example.com'' = None
        \<and> port_or_80 (port \<lparr>hostname = Some ''example.com'', port = PortAbsent,
                                path = ''/cam_1.cgi''\<rparr>) = Inr 80"
    by (simp add: dict_get_def example_named_seed_def example_urlparse_def example_named_ip
        port_or_80_def)
  from non_ipv4_seed_path_candidates_only
      [of "[]" "[]" example_urlparse example_rng 20, THEN conjunct1, rule_format, OF a]
  have 1: "fst (generate_similar_urls example_urlparse example_rng [] 20) = []" .
  from non_ipv4_seed_path_candidates_only
      [of example_bad_port_seed "''http://example.com:99999/cam_1.cgi''" example_urlparse
        example_rng 20, THEN conjunct1, rule_format, OF p]
  have 2: "fst (generate_similar_urls example_urlparse example_rng example_bad_port_seed 20) = []" .
  from non_ipv4_seed_path_candidates_only
      [of "[(''image_url'', PNone)]" _ example_urlparse example_rng 20,
        THEN conjunct2, THEN conjunct1, THEN mp, OF n]
  have 3: "fst (generate_similar_urls example_urlparse example_rng [(''image_url'', PNone)] 20) = []" .
  from non_ipv4_seed_path_candidates_only
      [of example_named_seed "''http://example.com/cam_1.cgi''" example_urlparse example_rng 20
        "\<lparr>hostname = Some ''example.com'', port = PortAbsent, path = ''/cam_1.cgi''\<rparr>"
        "''example.com''" 80, THEN conjunct2, THEN conjunct2, rule_format, OF b]
  have 4: "fst (generate_similar_urls example_urlparse example_rng example_named_seed 20)
     = [''http://example.com:80/cam_2.cgi'', ''http://example.com:80/cam_3.cgi'',
        ''http://example.com:80/cam_4.cgi'', ''http://example.com:80/cam_5.cgi'']"
    by (simp add: example_named_candidates)
  from 1 2 3 4 show ?thesis by (intro conjI)
qed

text \<open>
  The seed \<open>http://example.com/cam_1.cgi\<close> has no numeric IPv4 host, and the generator
  returns four candidates for it.
\<close>

theorem named_host_seed_counterexample:
  "IPv4Address ''example.com'' = None
   \<and> example_urlparse ''http://example.com/cam_1.cgi''
       = Inr \<lparr>hostname = Some ''example.com'', port = PortAbsent, path = ''/cam_1.cgi''\<rparr>
   \<and> fst (generate_similar_urls example_urlparse example_rng example_named_seed 20)
       = [''http://example.com:80/cam_2.cgi'', ''http://example.com:80/cam_3.cgi'',
          ''http://example.com:80/cam_4.cgi'', ''http://example.com:80/cam_5.cgi'']"
  by (simp add: example_named_ip example_urlparse_def generate_similar_urls_def
      example_named_seed_def dict_get_def port_or_80_def Let_def example_path_variations
      mk_url_def str_nat_80)

section \<open>Properties of the expansion run\<close>

lemma set_py_take: "set (py_take k xs) \<subseteq> set xs"
  by (auto simp: py_take_def dest: in_set_takeD)

lemma distinct_py_take: "distinct xs \<Longrightarrow> distinct (py_take k xs)"
  by (simp add: py_take_def)

lemma urls_to_test_not_existing:
  assumes "u \<in> set (urls_to_test urlparse set_order g existing_cameras target)"
    and "camera \<in> set existing_cameras"
  shows "dict_get camera ''image_url'' (PStr []) \<noteq> PStr u"
proof
  assume e: "dict_get camera ''image_url'' (PStr []) = PStr u"
  from assms(1)
  have n: "PStr u \<notin> (\<lambda>camera. dict_get camera ''image_url'' (PStr [])) ` set existing_cameras"
    by (simp add: urls_to_test_def Let_def)
  from assms(2)
  have "dict_get camera ''image_url'' (PStr [])
      \<in> (\<lambda>camera. dict_get camera ''image_url'' (PStr [])) ` set existing_cameras"
    by (rule imageI)
  with e n show False by simp
qed

text \<open>
  C10. No URL handed to \<open>executor.submit\<close> in an expansion run is equal to the
  \<open>image_url\<close> of a loaded camera, and the submitted URLs are pairwise distinct
  whenever the iteration over \<open>set(test_urls)\<close> yields each element once.
\<close>

theorem submitted_urls_filtered:
  "(\<forall>u\<in>set (submitted_urls urlparse set_order g existing_cameras target).
      \<forall>camera\<in>set existing_cameras. dict_get camera ''image_url'' (PStr []) \<noteq> PStr u)
   \<and> (distinct (set_order (remdups (fst (generate_test_urls urlparse g existing_cameras target))))
        \<longrightarrow> distinct (submitted_urls urlparse set_order g existing_cameras target))"
proof (intro conjI ballI impI)
  fix u camera
  assume u: "u \<in> set (submitted_urls urlparse set_order g existing_cameras target)"
    and c: "camera \<in> set existing_cameras"
  from c have "existing_cameras \<noteq> []" by auto
  with u have "u \<in> set (py_take (target * 2)
      (urls_to_test urlparse set_order g existing_cameras target))"
    by (simp add: submitted_urls_def)
  then have "u \<in> set (urls_to_test urlparse set_order g existing_cameras target)"
    by (rule subsetD [OF set_py_take])
  from this c show "dict_get camera ''image_url'' (PStr []) \<noteq> PStr u"
    by (rule urls_to_test_not_existing)
next
  assume "distinct (set_order (remdups (fst (generate_test_urls urlparse g existing_cameras target))))"
  then have "distinct (urls_to_test urlparse set_order g existing_cameras target)"
    by (simp add: urls_to_test_def Let_def)
  then show "distinct (submitted_urls urlparse set_order g existing_cameras target)"
    by (simp add: submitted_urls_def distinct_py_take)
qed


lemma example_named_generated:
  "fst (generate_similar_urls example_urlparse g example_named_seed 15)
       = [''http://example.com:80/cam_2.cgi'', ''http://example.com:80/cam_3.cgi'',
          ''http://example.com:80/cam_4.cgi'', ''http://example.com:80/cam_5.cgi'']"
  by (simp add: example_named_ip example_urlparse_def generate_similar_urls_def
      example_named_seed_def dict_get_def port_or_80_def Let_def example_path_variations
      mk_url_def str_nat_80)

lemma example_groups:
  "cameras_by_country [example_named_seed, example_known_variant]
     = [(PStr ''France'', [example_named_seed, example_known_variant])]"
  by (simp add: cameras_by_country_def example_named_seed_def example_known_variant_def
      dict_get_def)


lemma example_test_urls:
  "fst (generate_test_urls example_urlparse example_rng
          [example_named_seed, example_known_variant] 1)
     = [''http://example.com:80/cam_2.cgi'', ''http://example.com:80/cam_3.cgi'',
        ''http://example.com:80/cam_4.cgi'', ''http://example.com:80/cam_5.cgi'']"
  by (simp add: generate_test_urls_def example_groups example_named_generated Let_def)


lemma example_existing_urls:
  "map (\<lambda>camera. dict_get camera ''image_url'' (PStr []))
      [example_named_seed, example_known_variant]
     = [PStr ''http://example.com/cam_1.cgi'', PStr ''http://example.com:80/cam_2.cgi'']"
  by (simp add: example_named_seed_def example_known_variant_def dict_get_def)

lemma example_urls_to_test:
  "urls_to_test example_urlparse (\<lambda>xs. xs) example_rng
      [example_named_seed, example_known_variant] 1
     = [''http://example.com:80/cam_3.cgi'', ''http://example.com:80/cam_4.cgi'',
        ''http://example.com:80/cam_5.cgi'']"
  unfolding urls_to_test_def example_test_urls example_existing_urls Let_def
  by simp


lemma example_submitted:
  "submitted_urls example_urlparse (\<lambda>xs. xs) example_rng
      [example_named_seed, example_known_variant] 1
     = [''http://example.com:80/cam_3.cgi'', ''http://example.com:80/cam_4.cgi'']"
  unfolding submitted_urls_def example_urls_to_test
  by (simp add: py_take_def)

theorem submitted_urls_filtered_witness:
  "submitted_urls example_urlparse (\<lambda>xs. xs) example_rng
      [example_named_seed, example_known_variant] 1
     = [''http://example.com:80/cam_3.cgi'', ''http://example.com:80/cam_4.cgi'']
   \<and> distinct (submitted_urls example_urlparse (\<lambda>xs. xs) example_rng
                  [example_named_seed, example_known_variant] 1)
   \<and> ''http://example.com:80/cam_2.cgi''
       \<notin> set (submitted_urls example_urlparse (\<lambda>xs. xs) example_rng
                  [example_named_seed, example_known_variant] 1)"
proof -
  let ?ex = "[example_named_seed, example_known_variant]"
  let ?sub = "submitted_urls example_urlparse (\<lambda>xs. xs) example_rng ?ex 1"
  note t = submitted_urls_filtered [of example_urlparse "\<lambda>xs. xs" example_rng ?ex 1]
  have d: "distinct ((\<lambda>xs. xs)
      (remdups (fst (generate_test_urls example_urlparse example_rng ?ex 1))))"
    by simp
  from t [THEN conjunct2, rule_format, OF d] have 2: "distinct ?sub" .
  have k: "dict_get example_known_variant ''image_url'' (PStr [])
      = PStr ''http://example.com:80/cam_2.cgi''"
    by (simp add: example_known_variant_def dict_get_def)
  have 3: "''http://example.com:80/cam_2.cgi'' \<notin> set ?sub"
  proof
    assume m: "''http://example.com:80/cam_2.cgi'' \<in> set ?sub"
    have c: "example_known_variant \<in> set ?ex" by simp
    from t [THEN conjunct1, rule_format, OF m c] k show False by simp
  qed
  from example_submitted 2 3 show ?thesis by (intro conjI)
qed

end
